theory Spec2Isabelle
  imports Complex_Main
begin

section \<open>Conventions of the embedding\<close>

text \<open>
  The kinetics engine of isoclump (\<^verbatim>\<open>calc_funcs.py\<close>, \<^verbatim>\<open>core_functions.py\<close>) is
  embedded function by function. Every raise of the source is an error value of the
  model. Arithmetic is modelled at two levels. The matrix builders, the Jacobian
  estimator and the orchestration routine are modelled over the real numbers: what is
  proved of them is which expression each entry is, which error is raised and which
  function is called. The scalar models, of which the values themselves are claimed, are
  modelled in IEEE binary64 arithmetic, with its rounding, its infinities and its
  \<^verbatim>\<open>nan\<close>. One-dimensional arrays are lists, two-dimensional arrays carry their shape.
\<close>

text \<open>
  The exceptions of the source. \<open>ComplexResult\<close> is no exception: it marks the one place
  where Python 3 leaves the real numbers (a negative float under a fractional power is a
  complex number), which the model does not follow further.
\<close>

datatype py_error =
    ValueError | TypeError | KeyError | IndexError | NameError
  | ZeroDivisionError | OverflowError | LinAlgError | ComplexResult

definition ebind :: "py_error + 'a \<Rightarrow> ('a \<Rightarrow> py_error + 'b) \<Rightarrow> py_error + 'b" where
  "ebind m k = (case m of Inl e \<Rightarrow> Inl e | Inr v \<Rightarrow> k v)"

record array2 =
  nrow :: nat
  ncol :: nat
  dat :: "real list list"

definition np_zeros2 :: "nat \<Rightarrow> nat \<Rightarrow> array2" where
  "np_zeros2 r c = \<lparr>nrow = r, ncol = c, dat = replicate r (replicate c 0)\<rparr>"

text \<open>Python index normalisation: a negative index counts from the end.\<close>

definition py_index :: "nat \<Rightarrow> int \<Rightarrow> py_error + nat" where
  "py_index n i =
     (let j = (if i < 0 then int n + i else i)
      in if 0 \<le> j \<and> j < int n then Inr (nat j) else Inl IndexError)"

text \<open>Bounds of the slice \<^verbatim>\<open>a[lo:hi]\<close> of a sequence of length \<open>n\<close>, clipped as Python does.\<close>

definition py_slice_bound :: "nat \<Rightarrow> int \<Rightarrow> nat" where
  "py_slice_bound n i =
     (let j = (if i < 0 then int n + i else i)
      in if j < 0 then 0 else if int n < j then n else nat j)"

text \<open>\<^verbatim>\<open>A[i, j] = v\<close>\<close>

definition setitem2 :: "array2 \<Rightarrow> int \<Rightarrow> int \<Rightarrow> real \<Rightarrow> py_error + array2" where
  "setitem2 A i j v =
     ebind (py_index (nrow A) i) (\<lambda>r.
     ebind (py_index (ncol A) j) (\<lambda>c.
       Inr (A\<lparr>dat := (dat A)[r := (dat A ! r)[c := v]]\<rparr>)))"

text \<open>
  \<^verbatim>\<open>row[lo:hi] = c\<close> on row \<open>r\<close> of \<open>A\<close> (the row is a view, so the array changes);
  numpy refuses a value whose length is not the length of the slice.
\<close>

definition setslice_row :: "array2 \<Rightarrow> nat \<Rightarrow> int \<Rightarrow> int \<Rightarrow> real list \<Rightarrow> py_error + array2" where
  "setslice_row A r lo hi c =
     (let a = py_slice_bound (ncol A) lo; b = py_slice_bound (ncol A) hi
      in if length c = b - a \<and> a \<le> b
         then Inr (A\<lparr>dat := (dat A)[r := take a (dat A ! r) @ c @ drop b (dat A ! r)]\<rparr>)
         else Inl ValueError)"

section \<open>The smoothing matrix (\<^verbatim>\<open>_calc_R\<close>)\<close>

fun calc_R_loop :: "int \<Rightarrow> nat list \<Rightarrow> array2 \<Rightarrow> py_error + array2" where
  "calc_R_loop n [] R = Inr R"
| "calc_R_loop n (i # is) R =
     (if int i \<noteq> 0 \<and> int i \<noteq> n
      then (case setslice_row R i (int i - 1) (int i + 1) [-1, 1] of
              Inl e \<Rightarrow> Inl e
            | Inr R' \<Rightarrow> calc_R_loop n is R')
      else calc_R_loop n is R)"

definition calc_R :: "int \<Rightarrow> py_error + array2" where
  "calc_R n =
     (if n < 0 then Inl ValueError
      else ebind (setitem2 (np_zeros2 (nat (n + 1)) (nat n)) 0 0 1) (\<lambda>R1.
           ebind (setitem2 R1 (-1) (-1) (-1)) (\<lambda>R2.
           calc_R_loop n [0 ..< nrow R2] R2)))"


section \<open>Indexing and elementwise operations\<close>

text \<open>\<^verbatim>\<open>xs[i]\<close>\<close>

definition getitem :: "real list \<Rightarrow> int \<Rightarrow> py_error + real" where
  "getitem xs i = ebind (py_index (length xs) i) (\<lambda>k. Inr (xs ! k))"

text \<open>\<^verbatim>\<open>A[:, j]\<close>\<close>

definition getcol :: "array2 \<Rightarrow> int \<Rightarrow> py_error + real list" where
  "getcol A j = ebind (py_index (ncol A) j) (\<lambda>c. Inr (map (\<lambda>row. row ! c) (dat A)))"




section \<open>The forward kernel of the rate-spectrum inversion (\<^verbatim>\<open>_calc_A\<close>)\<close>



section \<open>The finite-difference Jacobian (\<^verbatim>\<open>_Jacobian\<close>)\<close>

text \<open>
  \<^verbatim>\<open>_Jacobian\<close> copies the caller's parameter array and updates the copies in place.
  To keep the copies apart from the original, one-dimensional arrays live in a heap
  here: an address is a position in the list of arrays, and a fresh array is appended.
  An array has an element type; a value stored into an array of integers is cast, that
  is truncated towards zero. (A Python list of floats behaves as an array of floats
  here.)
\<close>

datatype dtype = Float64 | Int64

type_synonym ndarray1 = "dtype \<times> real list"

type_synonym heap = "ndarray1 list"

definition store_cast :: "dtype \<Rightarrow> real \<Rightarrow> real" where
  "store_cast d v =
     (case d of Float64 \<Rightarrow> v | Int64 \<Rightarrow> of_int (if 0 \<le> v then \<lfloor>v\<rfloor> else \<lceil>v\<rceil>))"

text \<open>\<^verbatim>\<open>a.copy()\<close>\<close>

definition np_copy :: "heap \<Rightarrow> nat \<Rightarrow> heap \<times> nat" where
  "np_copy h a = (h @ [h ! a], length h)"

text \<open>\<^verbatim>\<open>a[i] += e\<close> and \<^verbatim>\<open>a[i] -= e\<close>: the sum is formed as a float and stored into the array.\<close>

definition np_iadd :: "heap \<Rightarrow> nat \<Rightarrow> nat \<Rightarrow> real \<Rightarrow> heap" where
  "np_iadd h a i e =
     h[a := (fst (h ! a), (snd (h ! a))[i := store_cast (fst (h ! a)) (snd (h ! a) ! i + e)])]"

definition np_isub :: "heap \<Rightarrow> nat \<Rightarrow> nat \<Rightarrow> real \<Rightarrow> heap" where
  "np_isub h a i e =
     h[a := (fst (h ! a), (snd (h ! a))[i := store_cast (fst (h ! a)) (snd (h ! a) ! i - e)])]"

text \<open>\<^verbatim>\<open>a - b\<close> on one-dimensional arrays, with numpy's broadcasting of a length-1 array.\<close>

definition np_sub :: "real list \<Rightarrow> real list \<Rightarrow> py_error + real list" where
  "np_sub a b =
     (if length a = length b then Inr (map2 (-) a b)
      else if length a = 1 then Inr (map (\<lambda>y. hd a - y) b)
      else if length b = 1 then Inr (map (\<lambda>x. x - hd b) a)
      else Inl ValueError)"

text \<open>\<^verbatim>\<open>a / c\<close> for a scalar \<open>c\<close>; a zero divisor has no finite result.\<close>

definition np_div_scalar :: "real list \<Rightarrow> real \<Rightarrow> py_error + real list" where
  "np_div_scalar a c = (if c = 0 then Inl ZeroDivisionError else Inr (map (\<lambda>v. v / c) a))"

text \<open>\<^verbatim>\<open>J[:, i] = v\<close>, again with broadcasting of a length-1 value.\<close>

definition setcol :: "array2 \<Rightarrow> nat \<Rightarrow> real list \<Rightarrow> py_error + array2" where
  "setcol J i v =
     (if length v = nrow J then Inr (J\<lparr>dat := map2 (\<lambda>row x. row[i := x]) (dat J) v\<rparr>)
      else if length v = 1 then Inr (J\<lparr>dat := map (\<lambda>row. row[i := hd v]) (dat J)\<rparr>)
      else Inl ValueError)"

text \<open>
  A model function \<^verbatim>\<open>f(t, *p)\<close>. The state of the loop is the heap, the matrix \<open>J\<close> and,
  to count evaluations, the list of parameter vectors \<open>f\<close> has been called with.
\<close>

type_synonym model_fun = "real list \<Rightarrow> real list \<Rightarrow> py_error + real list"

type_synonym jac_state = "heap \<times> array2 \<times> real list list"

definition Jacobian_step ::
  "model_fun \<Rightarrow> real list \<Rightarrow> nat \<Rightarrow> real \<Rightarrow> nat \<Rightarrow> jac_state \<Rightarrow> py_error + jac_state" where
  "Jacobian_step f t p eps i s =
     (case s of (h, J, calls) \<Rightarrow>
        let (h1, pp) = np_copy h p;
            h2 = np_iadd h1 pp i eps;
            (h3, pm) = np_copy h2 p;
            h4 = np_isub h3 pm i eps
        in ebind (f t (snd (h4 ! pp))) (\<lambda>yp.
           ebind (f t (snd (h4 ! pm))) (\<lambda>ym.
           ebind (np_sub yp ym) (\<lambda>d.
           ebind (np_div_scalar d (2 * eps)) (\<lambda>c.
           ebind (setcol J i c) (\<lambda>J'.
             Inr (h4, J', calls @ [snd (h4 ! pp), snd (h4 ! pm)])))))))"

fun Jacobian_loop ::
  "model_fun \<Rightarrow> real list \<Rightarrow> nat \<Rightarrow> real \<Rightarrow> nat list \<Rightarrow> jac_state \<Rightarrow> py_error + jac_state" where
  "Jacobian_loop f t p eps [] s = Inr s"
| "Jacobian_loop f t p eps (i # is) s =
     (case Jacobian_step f t p eps i s of
        Inl e \<Rightarrow> Inl e
      | Inr s' \<Rightarrow> Jacobian_loop f t p eps is s')"

definition Jacobian ::
  "model_fun \<Rightarrow> real list \<Rightarrow> heap \<Rightarrow> nat \<Rightarrow> real \<Rightarrow> py_error + jac_state" where
  "Jacobian f t h p eps =
     (let npar = length (snd (h ! p)); nt = length t; J = np_zeros2 nt npar
      in Jacobian_loop f t p eps [0 ..< npar] (h, J, []))"




section \<open>Forward prediction along a geologic history (\<^verbatim>\<open>geologic_history\<close>)\<close>

text \<open>
  The arguments \<^verbatim>\<open>calibration\<close> and \<^verbatim>\<open>ref_frame\<close> are checked at run time, so they are
  Python values here. \<open>PyUnicode\<close> stands for a value that is not an instance of \<^verbatim>\<open>str\<close>
  and yet compares equal to one (a \<^verbatim>\<open>unicode\<close> object under Python 2, which the module
  supports, or an object with its own \<^verbatim>\<open>__eq__\<close>).
\<close>

datatype pyval = PyStr string | PyUnicode string | PyInt int | PyNone

fun py_eq_str :: "pyval \<Rightarrow> string \<Rightarrow> bool" where
  "py_eq_str (PyStr s) lit = (s = lit)"
| "py_eq_str (PyUnicode s) lit = (s = lit)"
| "py_eq_str (PyInt n) lit = False"
| "py_eq_str PyNone lit = False"

text \<open>\<^verbatim>\<open>v in [lit, ...]\<close>\<close>

definition py_in :: "pyval \<Rightarrow> string list \<Rightarrow> bool" where
  "py_in v lits = list_ex (py_eq_str v) lits"

text \<open>\<^verbatim>\<open>isinstance(v, str)\<close>\<close>

fun isinstance_str :: "pyval \<Rightarrow> bool" where
  "isinstance_str (PyStr s) = True"
| "isinstance_str v = False"

text \<open>
  The \<^verbatim>\<open>if\<close> / \<^verbatim>\<open>elif\<close> pair of lines 193 to 203 (and 205 to 215): the membership test comes
  first, the type test second. A value that passes both is a string.
\<close>

definition check_name :: "pyval \<Rightarrow> string list \<Rightarrow> py_error + string" where
  "check_name v allowed =
     (if \<not> py_in v allowed then Inl ValueError
      else if \<not> isinstance_str v then Inl TypeError
      else (case v of PyStr s \<Rightarrow> Inr s | _ \<Rightarrow> Inl TypeError))"

record EDistribution =
  model :: string
  Tref :: real
  Eparams :: array2
  Eparams_cov :: array2

text \<open>
  The forward functions \<^verbatim>\<open>_ghHea14\<close>, \<^verbatim>\<open>_ghHH20\<close>, \<^verbatim>\<open>_ghPH12\<close> and \<^verbatim>\<open>_ghSE15\<close> are imported
  by \<^verbatim>\<open>core_functions.py\<close> but defined nowhere in the sources at hand, and the table
  \<^verbatim>\<open>caleqs\<close> lives in \<^verbatim>\<open>dictionaries.py\<close>; they are parameters of the model. A forward
  function takes \<open>t\<close>, the positional parameters \<^verbatim>\<open>*p\<close>, \<open>Deq\<close>, \<open>T\<close>, \<open>Tref\<close> and the keyword
  \<^verbatim>\<open>nlam\<close> when it is passed.
\<close>

type_synonym gh_fun =
  "real list \<Rightarrow> real list \<Rightarrow> real list \<Rightarrow> real list \<Rightarrow> real \<Rightarrow> nat option \<Rightarrow> py_error + real list"

record gh_env =
  caleqs :: "string \<Rightarrow> (string \<Rightarrow> (real list \<Rightarrow> real list) option) option"
  ghHea14 :: gh_fun
  ghHH20 :: gh_fun
  ghPH12 :: gh_fun
  ghSE15 :: gh_fun

text \<open>\<^verbatim>\<open>caleqs[calibration][ref_frame]\<close>\<close>

definition lookup2 ::
  "(string \<Rightarrow> (string \<Rightarrow> 'a option) option) \<Rightarrow> string \<Rightarrow> string \<Rightarrow> py_error + 'a" where
  "lookup2 d k1 k2 =
     (case d k1 of
        None \<Rightarrow> Inl KeyError
      | Some d1 \<Rightarrow> (case d1 k2 of None \<Rightarrow> Inl KeyError | Some v \<Rightarrow> Inr v))"

text \<open>\<^verbatim>\<open>A.T.flatten()\<close>: the entries column by column.\<close>

definition flattenT :: "array2 \<Rightarrow> real list" where
  "flattenT A = concat (map (\<lambda>j. map (\<lambda>row. row ! j) (dat A)) [0 ..< ncol A])"

text \<open>\<^verbatim>\<open>A[:r, :c]\<close>\<close>

definition slice2 :: "array2 \<Rightarrow> nat \<Rightarrow> nat \<Rightarrow> array2" where
  "slice2 A r c = \<lparr>nrow = min r (nrow A), ncol = min c (ncol A), dat = map (take c) (take r (dat A))\<rparr>"

text \<open>
  The two \<^verbatim>\<open>np.append\<close> calls that border the covariance matrix with a zero row and the
  column \<open>[0, ..., 0, D0_cov]\<close>; the first needs \<open>npt\<close> columns.
\<close>

definition append_D0_cov :: "array2 \<Rightarrow> real \<Rightarrow> py_error + array2" where
  "append_D0_cov pcov D0_cov =
     (let npt = nrow pcov
      in if ncol pcov \<noteq> npt then Inl ValueError
         else let rows = dat pcov @ [replicate npt 0];
                  col = replicate npt 0 @ [D0_cov]
              in Inr \<lparr>nrow = npt + 1, ncol = ncol pcov + 1,
                      dat = map2 (\<lambda>row v. row @ [v]) rows col\<rparr>)"

definition transpose2 :: "array2 \<Rightarrow> array2" where
  "transpose2 A =
     \<lparr>nrow = ncol A, ncol = nrow A, dat = map (\<lambda>j. map (\<lambda>row. row ! j) (dat A)) [0 ..< ncol A]\<rparr>"

text \<open>\<^verbatim>\<open>np.dot\<close> of two matrices; the inner dimensions must agree.\<close>

definition np_dot :: "array2 \<Rightarrow> array2 \<Rightarrow> py_error + array2" where
  "np_dot A B =
     (if ncol A \<noteq> nrow B then Inl ValueError
      else Inr \<lparr>nrow = nrow A, ncol = ncol B,
                dat = map (\<lambda>row. map (\<lambda>j. sum_list (map2 (*) row (map (\<lambda>r. r ! j) (dat B))))
                                     [0 ..< ncol B])
                          (dat A)\<rparr>)"

definition np_diag :: "array2 \<Rightarrow> real list" where
  "np_diag A = map (\<lambda>i. dat A ! i ! i) [0 ..< min (nrow A) (ncol A)]"

text \<open>\<^verbatim>\<open>np.sqrt\<close>; the root of a negative number is \<^verbatim>\<open>nan\<close>, written \<open>None\<close>.\<close>

definition np_sqrt :: "real list \<Rightarrow> real option list" where
  "np_sqrt xs = map (\<lambda>v. if v < 0 then None else Some (sqrt v)) xs"

text \<open>
  The \<^verbatim>\<open>if\<close> / \<^verbatim>\<open>elif\<close> chain on \<^verbatim>\<open>ed.model\<close>, lines 226 to 346. Each branch chooses the
  fitted parameters, their covariance, the forward function that computes \<open>D\<close> and that
  the closure \<^verbatim>\<open>lamfunc\<close> calls, the number of parameters of the closure, and the keyword
  \<^verbatim>\<open>nlam\<close> the closure passes. With no branch taken, \<^verbatim>\<open>lamfunc\<close> is unbound at line 349.
\<close>

definition dispatch ::
  "gh_env \<Rightarrow> EDistribution \<Rightarrow> nat \<Rightarrow>
     py_error + ((py_error + real list) \<times> array2 \<times> gh_fun \<times> nat \<times> nat option)" where
  "dispatch env ed nlam =
     (if model ed = ''Hea14''
        then Inr (Inr (flattenT (Eparams ed)), Eparams_cov ed, ghHea14 env, 7, None)
      else if model ed = ''HH20''
        then Inr (Inr (flattenT (Eparams ed)), Eparams_cov ed, ghHH20 env, 5, Some nlam)
      else if model ed = ''PH12''
        then Inr (getcol (Eparams ed) 0, slice2 (Eparams_cov ed) 2 2, ghPH12 env, 3, None)
      else if model ed = ''SE15''
        then Inr (Inr (flattenT (Eparams ed)), Eparams_cov ed, ghHH20 env, 7, None)
      else Inl NameError)"

text \<open>
  \<^verbatim>\<open>geologic_history\<close>. The keyword arguments passed on to \<^verbatim>\<open>_Jacobian\<close> are the step
  \<open>eps\<close>, when given; its default is \<open>1e-6\<close>. The parameter array holds floats (the
  fitted parameters and \<open>D0\<close>).
\<close>

definition geologic_history ::
  "gh_env \<Rightarrow> real list \<Rightarrow> real list \<Rightarrow> EDistribution \<Rightarrow> real list \<Rightarrow> real list \<Rightarrow>
     pyval \<Rightarrow> pyval \<Rightarrow> nat \<Rightarrow> real option \<Rightarrow> py_error + (real list \<times> real option list)" where
  "geologic_history env t T ed d0 d0_std calibration ref_frame nlam kwargs =
     (if length T \<noteq> length t then Inl ValueError
      else
        ebind (check_name calibration [''PH12'', ''SE15'', ''Bea17'']) (\<lambda>cal.
        ebind (check_name ref_frame [''Ghosh25'', ''Ghosh90'', ''CDES25'', ''CDES90'']) (\<lambda>rf.
        ebind (lookup2 (caleqs env) cal rf) (\<lambda>caleq.
        let Deq = caleq T
        in ebind (getitem d0 0) (\<lambda>D0.
           ebind (getitem d0_std 0) (\<lambda>s0.
           let D0_cov = s0 ^ 2
           in ebind (dispatch env ed nlam) (\<lambda>(p0, pcov0, gh, arity, nlam_kw).
              ebind p0 (\<lambda>pk.
              let p = pk @ [D0]
              in ebind (append_D0_cov pcov0 D0_cov) (\<lambda>pcov.
                 ebind (gh t p Deq T (Tref ed) None) (\<lambda>D.
                 let lamfunc = (\<lambda>t q. if length q = arity
                                        then gh t q Deq T (Tref ed) nlam_kw
                                        else Inl TypeError);
                     eps = (case kwargs of None \<Rightarrow> 1 / 10 ^ 6 | Some e \<Rightarrow> e)
                 in ebind (Jacobian lamfunc t [(Float64, p)] 0 eps) (\<lambda>(h, J, calls).
                    ebind (np_dot pcov (transpose2 J)) (\<lambda>M.
                    ebind (np_dot J M) (\<lambda>Dcov.
                      Inr (D, np_sqrt (np_diag Dcov)))))))))))))))"

section \<open>IEEE binary64 arithmetic\<close>

text \<open>
  A double is a finite number, a negative zero, an infinity or \<^verbatim>\<open>nan\<close>; \<open>Fin 0\<close> is the
  positive zero. Results of operations are rounded to the nearest double, ties to the
  double with an even significand: a double is a multiple \<open>m * 2^k\<close> of its quantum with
  \<open>|m| < 2^53\<close> and \<open>k \<ge> -1074\<close>, and a result of magnitude \<open>2^1024\<close> or more after rounding
  is an infinity.
\<close>

datatype fl = Fin real | NZero | PInf | NInf | NaN

definition rne :: "real \<Rightarrow> int" where
  "rne y =
     (let f = \<lfloor>y\<rfloor>; d = y - of_int f
      in if d < 1 / 2 then f else if 1 / 2 < d then f + 1 else if even f then f else f + 1)"

definition quantum :: "real \<Rightarrow> real" where
  "quantum x = 2 powi (max \<lfloor>log 2 \<bar>x\<bar>\<rfloor> (- 1022) - 52)"

definition b64 :: "real \<Rightarrow> real" where
  "b64 x = (if x = 0 then 0 else of_int (rne (x / quantum x)) * quantum x)"

text \<open>
  Rounding of an exact result to a double. The flag is the sign of the exact result; it
  decides the sign of a zero.
\<close>

definition fround :: "bool \<Rightarrow> real \<Rightarrow> fl" where
  "fround neg x =
     (let r = b64 x
      in if 2 ^ 1024 \<le> r then PInf
         else if r \<le> - (2 ^ 1024) then NInf
         else if r = 0 then (if neg then NZero else Fin 0)
         else Fin r)"

fun is_zero :: "fl \<Rightarrow> bool" where
  "is_zero (Fin r) = (r = 0)"
| "is_zero NZero = True"
| "is_zero x = False"

fun is_inf :: "fl \<Rightarrow> bool" where
  "is_inf PInf = True"
| "is_inf NInf = True"
| "is_inf x = False"

fun is_finite :: "fl \<Rightarrow> bool" where
  "is_finite (Fin r) = True"
| "is_finite NZero = True"
| "is_finite x = False"

text \<open>The sign bit (of no use for \<^verbatim>\<open>nan\<close>) and the value of a finite double.\<close>

fun fsign :: "fl \<Rightarrow> bool" where
  "fsign (Fin r) = (r < 0)"
| "fsign NZero = True"
| "fsign NInf = True"
| "fsign x = False"

fun rval :: "fl \<Rightarrow> real" where
  "rval (Fin r) = r"
| "rval x = 0"

definition finf :: "bool \<Rightarrow> fl" where
  "finf neg = (if neg then NInf else PInf)"

definition fzero :: "bool \<Rightarrow> fl" where
  "fzero neg = (if neg then NZero else Fin 0)"

fun fneg :: "fl \<Rightarrow> fl" where
  "fneg (Fin r) = (if r = 0 then NZero else Fin (- r))"
| "fneg NZero = Fin 0"
| "fneg PInf = NInf"
| "fneg NInf = PInf"
| "fneg NaN = NaN"

definition fadd :: "fl \<Rightarrow> fl \<Rightarrow> fl" where
  "fadd a b =
     (if a = NaN \<or> b = NaN then NaN
      else if is_inf a \<and> is_inf b then (if a = b then a else NaN)
      else if is_inf a then a
      else if is_inf b then b
      else let r = rval a + rval b
           in if r = 0 then (if fsign a \<and> fsign b then NZero else Fin 0)
              else fround (r < 0) r)"

definition fsub :: "fl \<Rightarrow> fl \<Rightarrow> fl" where
  "fsub a b = fadd a (fneg b)"

definition fmul :: "fl \<Rightarrow> fl \<Rightarrow> fl" where
  "fmul a b =
     (if a = NaN \<or> b = NaN then NaN
      else if (is_inf a \<and> is_zero b) \<or> (is_zero a \<and> is_inf b) then NaN
      else if is_inf a \<or> is_inf b then finf (fsign a \<noteq> fsign b)
      else fround (fsign a \<noteq> fsign b) (rval a * rval b))"

text \<open>
  Division as numpy scalars and arrays do it: a division by zero gives an infinity or
  \<^verbatim>\<open>nan\<close> (and a warning).
\<close>

definition fdiv :: "fl \<Rightarrow> fl \<Rightarrow> fl" where
  "fdiv a b =
     (if a = NaN \<or> b = NaN then NaN
      else if (is_inf a \<and> is_inf b) \<or> (is_zero a \<and> is_zero b) then NaN
      else if is_inf a \<or> is_zero b then finf (fsign a \<noteq> fsign b)
      else if is_inf b then fzero (fsign a \<noteq> fsign b)
      else fround (fsign a \<noteq> fsign b) (rval a / rval b))"

text \<open>
  A number is a Python float or a numpy float64. The two differ where Python raises:
  Python's float division raises on a zero divisor.
\<close>

datatype numkind = PyFloat | NpFloat64

definition kdiv :: "numkind \<Rightarrow> fl \<Rightarrow> fl \<Rightarrow> py_error + fl" where
  "kdiv kind a b =
     (if kind = PyFloat \<and> is_zero b then Inl ZeroDivisionError else Inr (fdiv a b))"

section \<open>Library functions\<close>

text \<open>
  IEEE 754 fixes the results of the four operations, not those of \<^verbatim>\<open>exp\<close> and \<^verbatim>\<open>pow\<close> of the C
  library or of the summation and linear-algebra routines of numpy. These are parameters
  of the models below: \<^verbatim>\<open>np.exp\<close>, the power of two numpy floats, the power of two Python
  floats (which raises where numpy returns an infinity or \<^verbatim>\<open>nan\<close>), \<^verbatim>\<open>np.mean\<close>,
  \<^verbatim>\<open>numpy.linalg.inv\<close> and \<^verbatim>\<open>np.dot\<close> on matrices of size two.
\<close>

type_synonym vec2 = "fl \<times> fl"

type_synonym mat2 = "(fl \<times> fl) \<times> (fl \<times> fl)"

record numlib =
  np_exp :: "fl \<Rightarrow> fl"
  np_power :: "fl \<Rightarrow> fl \<Rightarrow> fl"
  py_pow :: "fl \<Rightarrow> fl \<Rightarrow> py_error + fl"
  np_mean :: "fl list \<Rightarrow> fl"
  np_inv :: "mat2 \<Rightarrow> py_error + mat2"
  np_matvec :: "mat2 \<Rightarrow> vec2 \<Rightarrow> vec2"

text \<open>\<^verbatim>\<open>x ** y\<close> for two floats of one kind.\<close>

definition kpow :: "numlib \<Rightarrow> numkind \<Rightarrow> fl \<Rightarrow> fl \<Rightarrow> py_error + fl" where
  "kpow lib kind x y =
     (case kind of PyFloat \<Rightarrow> py_pow lib x y | NpFloat64 \<Rightarrow> Inr (np_power lib x y))"

text \<open>
  \<^verbatim>\<open>x ** z\<close> for an integer \<open>z\<close>, which is converted to a double first; Python refuses an
  integer beyond the range of the doubles.
\<close>

definition kpow_int :: "numlib \<Rightarrow> numkind \<Rightarrow> fl \<Rightarrow> int \<Rightarrow> py_error + fl" where
  "kpow_int lib kind x z =
     (let y = fround (z < 0) (of_int z)
      in if kind = PyFloat \<and> is_inf y then Inl OverflowError else kpow lib kind x y)"

subsection \<open>A reference library\<close>

text \<open>
  One library, for the closed statements below: \<^verbatim>\<open>exp\<close> and \<^verbatim>\<open>pow\<close> are the correctly
  rounded functions with the special values of C99 (Annex F) and of CPython's
  \<^verbatim>\<open>float_pow\<close>, the mean is the sum from left to right divided by the length (numpy's
  order for fewer than eight elements), and the inverse is found by elimination with
  row exchange, failing on a zero pivot as LAPACK does.
\<close>

fun ref_exp :: "fl \<Rightarrow> fl" where
  "ref_exp (Fin x) = fround False (exp x)"
| "ref_exp NZero = Fin 1"
| "ref_exp PInf = PInf"
| "ref_exp NInf = Fin 0"
| "ref_exp NaN = NaN"

text \<open>A finite double with an integer value, and one with an odd integer value.\<close>

definition int_valued :: "fl \<Rightarrow> bool" where
  "int_valued y = (is_finite y \<and> of_int \<lfloor>rval y\<rfloor> = rval y)"

definition odd_valued :: "fl \<Rightarrow> bool" where
  "odd_valued y = (int_valued y \<and> odd \<lfloor>rval y\<rfloor>)"

definition ref_power :: "fl \<Rightarrow> fl \<Rightarrow> fl" where
  "ref_power x y =
     (if is_zero y then Fin 1
      else if x = Fin 1 then Fin 1
      else if x = NaN \<or> y = NaN then NaN
      else if is_zero x then
        (if fsign y then (if x = NZero \<and> odd_valued y then NInf else PInf)
         else (if x = NZero \<and> odd_valued y then NZero else Fin 0))
      else if is_inf y then
        (if x = Fin (- 1) then Fin 1
         else if (is_inf x \<or> 1 < \<bar>rval x\<bar>) = (y = PInf) then PInf else Fin 0)
      else if x = PInf then (if fsign y then Fin 0 else PInf)
      else if x = NInf then
        (if fsign y then (if odd_valued y then NZero else Fin 0)
         else (if odd_valued y then NInf else PInf))
      else if 0 < rval x then fround False (rval x powr rval y)
      else if \<not> int_valued y then NaN
      else if odd_valued y then fround True (- (\<bar>rval x\<bar> powr rval y))
      else fround False (\<bar>rval x\<bar> powr rval y))"

definition ref_py_pow :: "fl \<Rightarrow> fl \<Rightarrow> py_error + fl" where
  "ref_py_pow x y =
     (if is_zero y then Inr (Fin 1)
      else if x = NaN then Inr NaN
      else if y = NaN then Inr (if x = Fin 1 then Fin 1 else NaN)
      else if is_inf y then
        (if x = Fin 1 \<or> x = Fin (- 1) then Inr (Fin 1)
         else if (is_inf x \<or> 1 < \<bar>rval x\<bar>) = (y = PInf) then Inr PInf else Inr (Fin 0))
      else if is_inf x then
        (if fsign y then Inr (if odd_valued y then fzero (fsign x) else Fin 0)
         else Inr (if odd_valued y then x else PInf))
      else if is_zero x then
        (if fsign y then Inl ZeroDivisionError
         else Inr (if odd_valued y then x else Fin 0))
      else if rval x < 0 \<and> \<not> int_valued y then Inl ComplexResult
      else if \<bar>rval x\<bar> = 1 then Inr (Fin (if rval x < 0 \<and> odd_valued y then - 1 else 1))
      else let r = (if rval x < 0 \<and> odd_valued y
                    then fround True (- (\<bar>rval x\<bar> powr rval y))
                    else fround False (\<bar>rval x\<bar> powr rval y))
           in if is_inf r then Inl OverflowError else Inr r)"

definition ref_mean :: "fl list \<Rightarrow> fl" where
  "ref_mean xs = fdiv (foldl fadd NZero xs) (Fin (real (length xs)))"

text \<open>The magnitude of \<open>c\<close> exceeds that of \<open>a\<close> (never so for \<^verbatim>\<open>nan\<close>).\<close>

definition mag_gt :: "fl \<Rightarrow> fl \<Rightarrow> bool" where
  "mag_gt c a =
     (c \<noteq> NaN \<and> a \<noteq> NaN \<and>
      ((is_inf c \<and> \<not> is_inf a) \<or> (\<not> is_inf c \<and> \<not> is_inf a \<and> \<bar>rval a\<bar> < \<bar>rval c\<bar>)))"

text \<open>The solution of \<open>L U x = e\<close> for unit lower \<open>L\<close> with entry \<open>l\<close> and upper \<open>U\<close>.\<close>

definition lu_solve :: "fl \<Rightarrow> fl \<Rightarrow> fl \<Rightarrow> fl \<Rightarrow> vec2 \<Rightarrow> vec2" where
  "lu_solve l p pb u e =
     (let y1 = fst e;
          y2 = fsub (snd e) (fmul l y1);
          x2 = fdiv y2 u;
          x1 = fdiv (fsub y1 (fmul pb x2)) p
      in (x1, x2))"

definition ref_inv :: "mat2 \<Rightarrow> py_error + mat2" where
  "ref_inv M =
     (case M of ((a, b), (c, d)) \<Rightarrow>
        let swap = mag_gt c a;
            p = (if swap then c else a); pb = (if swap then d else b);
            ot = (if swap then a else c); ob = (if swap then b else d)
        in if is_zero p then Inl LinAlgError
           else let l = fdiv ot p; u = fsub ob (fmul l pb)
                in if is_zero u then Inl LinAlgError
                   else let c1 = lu_solve l p pb u (if swap then (Fin 0, Fin 1) else (Fin 1, Fin 0));
                            c2 = lu_solve l p pb u (if swap then (Fin 1, Fin 0) else (Fin 0, Fin 1))
                        in Inr ((fst c1, fst c2), (snd c1, snd c2)))"

definition ref_matvec :: "mat2 \<Rightarrow> vec2 \<Rightarrow> vec2" where
  "ref_matvec M v =
     (case M of ((a, b), (c, d)) \<Rightarrow>
        (fadd (fmul a (fst v)) (fmul b (snd v)), fadd (fmul c (fst v)) (fmul d (snd v))))"

definition ref_lib :: numlib where
  "ref_lib = \<lparr>np_exp = ref_exp, np_power = ref_power, py_pow = ref_py_pow, np_mean = ref_mean,
              np_inv = ref_inv, np_matvec = ref_matvec\<rparr>"

section \<open>The transient-defect model (\<^verbatim>\<open>_fHea14\<close>)\<close>

text \<open>All of its arithmetic is numpy's: no operation raises.\<close>

definition fHea14 :: "numlib \<Rightarrow> fl list \<Rightarrow> fl \<Rightarrow> fl \<Rightarrow> fl \<Rightarrow> fl list" where
  "fHea14 lib t lnkc lnkd lnk2 =
     (let kc = np_exp lib lnkc; kd = np_exp lib lnkd; k2 = np_exp lib lnk2;
          lnGhat = map (\<lambda>ti. fadd (fmul (fneg kc) ti)
                                   (fmul (fdiv kd k2)
                                         (fsub (np_exp lib (fmul (fneg k2) ti)) (Fin 1)))) t
      in map (np_exp lib) lnGhat)"

section \<open>Stochastic isotopologue ratios (\<^verbatim>\<open>_calc_R_stoch\<close>, \<^verbatim>\<open>_calc_Rpeq\<close>)\<close>

text \<open>
  The registry \<^verbatim>\<open>d47_isoparams\<close> lives in \<^verbatim>\<open>dictionaries.py\<close>, which is not part of the
  sources at hand; it is a parameter of the model. An entry is the tuple
  \<open>(R13_vpdb, R18_vpdb, R17_vpdb, lam17)\<close> of Python floats. The arguments are numbers of one
  kind: Python floats, or numpy floats as \<^verbatim>\<open>_fSE15\<close> passes them.
\<close>

type_synonym isoparams = "fl \<times> fl \<times> fl \<times> fl"

type_synonym isoparam_registry = "string \<Rightarrow> isoparams option"

text \<open>
  The first half of \<^verbatim>\<open>_calc_R_stoch\<close>: the minor-isotope ratios and the fractional
  abundances \<open>(f12, f13, f16, f17, f18)\<close>.
\<close>

definition stoch_fractions ::
  "numlib \<Rightarrow> numkind \<Rightarrow> isoparam_registry \<Rightarrow> fl \<Rightarrow> fl \<Rightarrow> string \<Rightarrow>
     py_error + (fl \<times> fl \<times> fl \<times> fl \<times> fl)" where
  "stoch_fractions lib kind d47_isoparams d13C d18O iso_params =
     (case d47_isoparams iso_params of
        None \<Rightarrow> Inl KeyError
      | Some (R13_vpdb, R18_vpdb, R17_vpdb, lam17) \<Rightarrow>
          let R13 = fmul (fadd (fdiv d13C (Fin 1000)) (Fin 1)) R13_vpdb;
              R18 = fmul (fadd (fdiv d18O (Fin 1000)) (Fin 1)) R18_vpdb
          in ebind (kdiv kind R18 R18_vpdb) (\<lambda>r.
             ebind (kpow lib kind r lam17) (\<lambda>q.
               let R17 = fmul R17_vpdb q
               in ebind (kdiv kind (Fin 1) (fadd (Fin 1) R13)) (\<lambda>f12.
                  let f13 = fmul R13 f12
                  in ebind (kdiv kind (Fin 1) (fadd (fadd (Fin 1) R17) R18)) (\<lambda>f16.
                     let f17 = fmul R17 f16; f18 = fmul R18 f16
                     in Inr (f12, f13, f16, f17, f18))))))"

definition calc_R_stoch ::
  "numlib \<Rightarrow> numkind \<Rightarrow> isoparam_registry \<Rightarrow> fl \<Rightarrow> fl \<Rightarrow> string \<Rightarrow> py_error + (fl \<times> fl \<times> fl)" where
  "calc_R_stoch lib kind d47_isoparams d13C d18O iso_params =
     ebind (stoch_fractions lib kind d47_isoparams d13C d18O iso_params)
       (\<lambda>(f12, f13, f16, f17, f18).
       let f44 = fmul (fmul f12 f16) f16;
           f45 = fadd (fmul (fmul f13 f16) f16) (fmul (fmul (fmul (Fin 2) f12) f17) f16);
           f46 = fadd (fadd (fmul (fmul (fmul (Fin 2) f12) f16) f18)
                            (fmul (fmul (fmul (Fin 2) f13) f17) f16))
                      (fmul (fmul f12 f17) f17);
           f47 = fadd (fadd (fmul (fmul (fmul (Fin 2) f13) f16) f18)
                            (fmul (fmul (fmul (Fin 2) f12) f17) f18))
                      (fmul (fmul f13 f17) f17)
       in ebind (kdiv kind f45 f44) (\<lambda>R45_stoch.
          ebind (kdiv kind f46 f44) (\<lambda>R46_stoch.
          ebind (kdiv kind f47 f44) (\<lambda>R47_stoch.
            Inr (R45_stoch, R46_stoch, R47_stoch)))))"

definition calc_Rpeq :: "numlib \<Rightarrow> numkind \<Rightarrow> fl \<Rightarrow> fl \<Rightarrow> fl \<Rightarrow> int \<Rightarrow> py_error + fl" where
  "calc_Rpeq lib kind R45_stoch R46_stoch R47_stoch z =
     ebind (kdiv kind (Fin 1) (fadd (fadd (fadd (Fin 1) R45_stoch) R46_stoch) R47_stoch)) (\<lambda>f44.
       let f45 = fmul R45_stoch f44; f46 = fmul R46_stoch f44
       in ebind (kpow_int lib kind (fsub (Fin 1) f45) z) (\<lambda>q45.
          let pa = fmul f46 (fsub (Fin 1) q45)
          in ebind (kpow_int lib kind (fsub (Fin 1) f46) z) (\<lambda>q46.
             let pb = fmul f45 (fsub (Fin 1) q46); p = fdiv (fadd pa pb) (Fin 2)
             in kdiv kind p f44)))"

section \<open>The paired-diffusion model (\<^verbatim>\<open>_fSE15\<close>)\<close>

text \<open>
  The heating experiment supplies its data \<^verbatim>\<open>dex\<close>, one row \<open>[D47, d13C, d18O]\<close> per
  measurement, and the name of its isotope-parameter set.
\<close>

record HeatingExperiment =
  dex_ncol :: nat
  dex :: "fl list list"
  iso_params :: string

text \<open>\<^verbatim>\<open>he.dex[:, j]\<close>\<close>

definition dex_col :: "HeatingExperiment \<Rightarrow> int \<Rightarrow> py_error + fl list" where
  "dex_col he j = ebind (py_index (dex_ncol he) j) (\<lambda>c. Inr (map (\<lambda>row. row ! c) (dex he)))"

text \<open>\<^verbatim>\<open>eye(2) - dt*A\<close> and \<^verbatim>\<open>x + dt*B\<close>, entry by entry.\<close>

definition step_matrix :: "mat2 \<Rightarrow> fl \<Rightarrow> mat2" where
  "step_matrix A dt =
     (case A of ((a, b), (c, d)) \<Rightarrow>
        ((fsub (Fin 1) (fmul dt a), fsub (Fin 0) (fmul dt b)),
         (fsub (Fin 0) (fmul dt c), fsub (Fin 1) (fmul dt d))))"

definition step_rhs :: "vec2 \<Rightarrow> fl \<Rightarrow> vec2 \<Rightarrow> vec2" where
  "step_rhs x dt B = (fadd (fst x) (fmul dt (fst B)), fadd (snd x) (fmul dt (snd B)))"

text \<open>
  Lines 499 to 531: the rate matrix \<open>A\<close>, the source vector \<open>B\<close> and the initial state
  \<open>[Dp470, Dpp0]\<close>. The means are numpy floats, and so is all that is computed from them:
  nothing raises but the two look-ups.
\<close>

definition SE15_system ::
  "numlib \<Rightarrow> isoparam_registry \<Rightarrow> fl \<Rightarrow> fl \<Rightarrow> fl \<Rightarrow> fl \<Rightarrow> fl \<Rightarrow> fl \<Rightarrow> HeatingExperiment \<Rightarrow>
     py_error + (mat2 \<times> vec2 \<times> vec2)" where
  "SE15_system lib d47_isoparams lnk1f lnkds lnp0peq D0 Deq Dppeq he =
     ebind (dex_col he 1) (\<lambda>c13.
     let d13C = np_mean lib c13
     in ebind (dex_col he 2) (\<lambda>c18.
     let d18O = np_mean lib c18
     in ebind (calc_R_stoch lib NpFloat64 d47_isoparams d13C d18O (iso_params he))
       (\<lambda>(R45_stoch, R46_stoch, R47_stoch).
       let Rpeq = fmul Dppeq R47_stoch;
           kds = np_exp lib lnkds;
           kdp = fdiv (fmul kds (fmul (fsub R45_stoch Rpeq) (fsub R46_stoch Rpeq))) Rpeq;
           p0peq = np_exp lib lnp0peq;
           k1f = np_exp lib lnk1f;
           Dpp0 = fmul p0peq Dppeq;
           Dp470 = fadd (fdiv D0 (Fin 1000)) (Fin 1);
           Dp47eq = fadd (fdiv Deq (Fin 1000)) (Fin 1);
           a = k1f;
           b = fdiv (fmul k1f Dp47eq) Dppeq;
           c = kdp;
           d = fmul kdp Dppeq
       in Inr (((fneg a, b), (a, fneg (fadd b c))), (Fin 0, d), (Dp470, Dpp0)))))"

text \<open>
  The loop over \<^verbatim>\<open>range(nt-1)\<close>. Its state is the array \<open>x\<close> of states and, to count the
  implicit updates, the list of matrices \<^verbatim>\<open>inv\<close> has been called with.
\<close>

fun backward_Euler ::
  "numlib \<Rightarrow> mat2 \<Rightarrow> vec2 \<Rightarrow> fl list \<Rightarrow> nat list \<Rightarrow> vec2 list \<times> mat2 list \<Rightarrow>
     py_error + (vec2 list \<times> mat2 list)" where
  "backward_Euler lib A B t [] s = Inr s"
| "backward_Euler lib A B t (i # is) s =
     (case s of (x, inverted) \<Rightarrow>
        let M = step_matrix A (fsub (t ! (i + 1)) (t ! i))
        in case np_inv lib M of
             Inl e \<Rightarrow> Inl e
           | Inr Ai \<Rightarrow>
               backward_Euler lib A B t is
                 (x[i + 1 := np_matvec lib Ai (step_rhs (x ! i) (fsub (t ! (i + 1)) (t ! i)) B)],
                  inverted @ [M]))"

text \<open>\<^verbatim>\<open>_fSE15\<close> together with the list of matrices it has inverted.\<close>

definition fSE15_run ::
  "numlib \<Rightarrow> isoparam_registry \<Rightarrow> fl list \<Rightarrow> fl \<Rightarrow> fl \<Rightarrow> fl \<Rightarrow> fl \<Rightarrow> fl \<Rightarrow> fl \<Rightarrow>
     HeatingExperiment \<Rightarrow> py_error + (fl list \<times> mat2 list)" where
  "fSE15_run lib d47_isoparams t lnk1f lnkds lnp0peq D0 Deq Dppeq he =
     ebind (SE15_system lib d47_isoparams lnk1f lnkds lnp0peq D0 Deq Dppeq he) (\<lambda>(A, B, x0).
       let nt = length t;
           x = replicate nt (Fin 0, Fin 0)
       in if nt = 0 then Inl IndexError
          else ebind (backward_Euler lib A B t [0 ..< nt - 1] (x[0 := x0], [])) (\<lambda>(x', inverted).
                 let Dp47 = map fst x'
                 in Inr (map (\<lambda>v. fmul (Fin 1000) (fsub v (Fin 1))) Dp47, inverted)))"

definition fSE15 ::
  "numlib \<Rightarrow> isoparam_registry \<Rightarrow> fl list \<Rightarrow> fl \<Rightarrow> fl \<Rightarrow> fl \<Rightarrow> fl \<Rightarrow> fl \<Rightarrow> fl \<Rightarrow>
     HeatingExperiment \<Rightarrow> py_error + fl list" where
  "fSE15 lib d47_isoparams t lnk1f lnkds lnp0peq D0 Deq Dppeq he =
     ebind (fSE15_run lib d47_isoparams t lnk1f lnkds lnp0peq D0 Deq Dppeq he)
       (\<lambda>(D, inverted). Inr D)"

section \<open>Sample data\<close>

text \<open>
  An isotope-parameter registry with the one entry \<^verbatim>\<open>'Brand'\<close> (the doubles nearest to
  \<open>0.01118\<close>, \<open>0.0020052\<close>, \<open>0.00038475\<close> and \<open>0.528\<close>), and a heating experiment of two
  measurements \<open>[0.6, 1.5, 1.0]\<close> and \<open>[0.55, 2.5, -1.0]\<close>. They serve the closed statements
  about \<^verbatim>\<open>_calc_R_stoch\<close> and \<^verbatim>\<open>_fSE15\<close> below.
\<close>

definition sample_isoparams :: isoparam_registry where
  "sample_isoparams name =
     (if name = ''Brand''
      then Some (Fin (6444831210752275 / 576460752303423488),
                 Fin (4623676402075299 / 2305843009213693952),
                 Fin (3548692391179875 / 9223372036854775808),
                 Fin (1188950301625811 / 2251799813685248))
      else None)"

definition sample_experiment :: HeatingExperiment where
  "sample_experiment =
     \<lparr>dex_ncol = 3,
      dex = [[Fin (5404319552844595 / 9007199254740992), Fin (3 / 2), Fin 1],
             [Fin (2476979795053773 / 4503599627370496), Fin (5 / 2), Fin (- 1)]],
      iso_params = ''Brand''\<rparr>"

section \<open>Properties of the smoothing matrix\<close>

lemma py_slice_bound_nat: "k \<le> n \<Longrightarrow> py_slice_bound n (int k) = k"
  by (simp add: py_slice_bound_def Let_def)

lemma calc_R_loop_rows:
  assumes "distinct js" "\<forall>i\<in>set js. i < length (dat R)"
    and "ncol R = nat n" "length (dat R) = nat n + 1" "0 \<le> n"
  shows "\<exists>R'. calc_R_loop n js R = Inr R' \<and> nrow R' = nrow R \<and> ncol R' = ncol R
            \<and> length (dat R') = length (dat R)
            \<and> (\<forall>i < length (dat R). dat R' ! i =
                  (if i \<in> set js \<and> i \<noteq> 0 \<and> int i \<noteq> n
                   then take (i - 1) (dat R ! i) @ [-1, 1] @ drop (i + 1) (dat R ! i)
                   else dat R ! i))"
  using assms
proof (induction js arbitrary: R)
  case Nil
  then show ?case by simp
next
  case (Cons i js)
  show ?case
  proof (cases "i \<noteq> 0 \<and> int i \<noteq> n")
    case False
    then have eq: "calc_R_loop n (i # js) R = calc_R_loop n js R" by auto
    from Cons.IH[of R] Cons.prems obtain R' where
      R': "calc_R_loop n js R = Inr R'" "nrow R' = nrow R" "ncol R' = ncol R"
        "length (dat R') = length (dat R)"
        "\<forall>k < length (dat R). dat R' ! k =
                  (if k \<in> set js \<and> k \<noteq> 0 \<and> int k \<noteq> n
                   then take (k - 1) (dat R ! k) @ [-1, 1] @ drop (k + 1) (dat R ! k)
                   else dat R ! k)"
      by auto
    show ?thesis using R' False eq by auto
  next
    case True
    from Cons.prems True have ilt: "i < nat n" "0 < i" by auto
    define Q where "Q = R\<lparr>dat := (dat R)[i := take (i - 1) (dat R ! i) @ [-1, 1] @ drop (i + 1) (dat R ! i)]\<rparr>"
    have b1: "py_slice_bound (ncol R) (int i - 1) = i - 1"
      using ilt Cons.prems(3) by (auto simp: py_slice_bound_def Let_def)
    have b2: "py_slice_bound (ncol R) (int i + 1) = i + 1"
      using ilt Cons.prems(3) by (auto simp: py_slice_bound_def Let_def)
    have ss: "setslice_row R i (int i - 1) (int i + 1) [-1, 1] = Inr Q"
      using ilt by (simp add: setslice_row_def b1 b2 Q_def Let_def)
    have eq: "calc_R_loop n (i # js) R = calc_R_loop n js Q"
      using True ss by simp
    have Qp: "distinct js" "\<forall>k\<in>set js. k < length (dat Q)" "ncol Q = nat n"
      "length (dat Q) = nat n + 1"
      using Cons.prems by (auto simp: Q_def)
    from Cons.IH[OF Qp \<open>0 \<le> n\<close>] obtain R' where
      R': "calc_R_loop n js Q = Inr R'" "nrow R' = nrow Q" "ncol R' = ncol Q"
        "length (dat R') = length (dat Q)"
        "\<forall>k < length (dat Q). dat R' ! k =
                  (if k \<in> set js \<and> k \<noteq> 0 \<and> int k \<noteq> n
                   then take (k - 1) (dat Q ! k) @ [-1, 1] @ drop (k + 1) (dat Q ! k)
                   else dat Q ! k)"
      by auto
    have notin: "i \<notin> set js" using Cons.prems(1) by simp
    have "\<forall>k < length (dat R). dat R' ! k =
                  (if k \<in> set (i # js) \<and> k \<noteq> 0 \<and> int k \<noteq> n
                   then take (k - 1) (dat R ! k) @ [-1, 1] @ drop (k + 1) (dat R ! k)
                   else dat R ! k)"
    proof (intro allI impI)
      fix k assume k: "k < length (dat R)"
      then have kq: "k < length (dat Q)" by (simp add: Q_def)
      show "dat R' ! k =
                  (if k \<in> set (i # js) \<and> k \<noteq> 0 \<and> int k \<noteq> n
                   then take (k - 1) (dat R ! k) @ [-1, 1] @ drop (k + 1) (dat R ! k)
                   else dat R ! k)"
      proof (cases "k = i")
        case True
        then show ?thesis using R'(5) kq notin k \<open>i \<noteq> 0 \<and> int i \<noteq> n\<close> by (simp add: Q_def)
      next
        case False
        then show ?thesis using R'(5) kq k by (simp add: Q_def)
      qed
    qed
    then show ?thesis using R' eq by (simp add: Q_def)
  qed
qed


lemma calc_R_start:
  assumes "1 \<le> n"
  shows "\<exists>R2. ebind (setitem2 (np_zeros2 (nat (n + 1)) (nat n)) 0 0 1)
                 (\<lambda>R1. ebind (setitem2 R1 (-1) (-1) (-1)) Inr) = Inr R2
          \<and> nrow R2 = nat n + 1 \<and> ncol R2 = nat n \<and> length (dat R2) = nat n + 1
          \<and> dat R2 ! 0 = (replicate (nat n) 0)[0 := 1]
          \<and> dat R2 ! nat n = (replicate (nat n) 0)[nat n - 1 := -1]
          \<and> (\<forall>i. 0 < i \<and> i < nat n \<longrightarrow> dat R2 ! i = replicate (nat n) 0)"
proof -
  obtain m where m: "nat n = Suc m" using assms by (cases "nat n") auto
  have n1: "nat (n + 1) = Suc (Suc m)" using m assms by linarith
  have i1: "py_index (Suc m) (-1) = Inr m"
    by (simp add: py_index_def Let_def)
  have i2: "py_index (Suc (Suc m)) (-1) = Inr (Suc m)"
    by (simp add: py_index_def Let_def)
  have i3: "py_index (Suc (Suc m)) 0 = Inr 0" "py_index (Suc m) 0 = Inr 0"
    by (simp_all add: py_index_def Let_def)
  show ?thesis
    by (simp add: setitem2_def np_zeros2_def ebind_def m n1 i1 i2 i3 nth_list_update
          del: replicate.simps)
qed


lemma interior_row_eq:
  assumes "0 < i" "i < m"
  shows "take (i - 1) (replicate m (0::real)) @ [-1, 1] @ drop (i + 1) (replicate m 0)
         = replicate (i - 1) 0 @ [-1, 1] @ replicate (m - (i + 1)) 0"
  using assms by (simp add: min_def)

lemma interior_row_nth:
  assumes "0 < i" "i < m" "j < m"
  shows "(take (i - 1) (replicate m (0::real)) @ [-1, 1] @ drop (i + 1) (replicate m 0)) ! j
         = (if j = i - 1 then -1 else if j = i then 1 else 0)"
proof -
  consider "j < i - 1" | "j = i - 1" | "j = i" | "i < j" using assms by linarith
  then show ?thesis
  proof cases
    case 1 then show ?thesis
      unfolding interior_row_eq[OF assms(1,2)] using assms by (simp add: nth_append)
  next
    case 2 then show ?thesis
      unfolding interior_row_eq[OF assms(1,2)] using assms by (simp add: nth_append)
  next
    case 3
    then have "j - (i - 1) = Suc 0" "\<not> j < i - 1" using assms by auto
    then show ?thesis
      unfolding interior_row_eq[OF assms(1,2)] using assms 3 by (simp add: nth_append)
  next
    case 4
    then have "j - (i - 1) = Suc (Suc (j - (i + 1)))" "\<not> j < i - 1" "j - (i + 1) < m - (i + 1)"
      using assms by auto
    then show ?thesis
      unfolding interior_row_eq[OF assms(1,2)] using assms 4 by (simp add: nth_append)
  qed
qed

lemma interior_row_sum:
  "sum_list (take (i - 1) (replicate m (0::real)) @ [-1, 1] @ drop (i + 1) (replicate m 0)) = 0"
  by (simp add: sum_list_replicate)

lemma interior_row_length:
  assumes "0 < i" "i < m"
  shows "length (take (i - 1) (replicate m (0::real)) @ [-1, 1] @ drop (i + 1) (replicate m 0)) = m"
  using assms by simp

text \<open>
  Claim C3. For every integer \<open>n \<ge> 1\<close> the smoothing-matrix builder returns a matrix of
  shape \<open>(n+1) \<times> n\<close> with entry \<open>[0,0] = 1\<close> and entry \<open>[n,n-1] = -1\<close>; every interior row
  \<open>i\<close> (\<open>0 < i < n\<close>) has \<open>-1\<close> at column \<open>i-1\<close>, \<open>1\<close> at column \<open>i\<close> and zeros elsewhere, and
  sums to zero.
\<close>

theorem calc_R_structure:
  assumes "1 \<le> n"
  shows "\<exists>R. calc_R n = Inr R \<and> nrow R = nat (n + 1) \<and> ncol R = nat n
           \<and> length (dat R) = nat (n + 1)
           \<and> (\<forall>i < nat (n + 1). length (dat R ! i) = nat n)
           \<and> dat R ! 0 ! 0 = 1
           \<and> dat R ! nat n ! nat (n - 1) = -1
           \<and> (\<forall>i j. 0 < i \<and> i < nat n \<and> j < nat n \<longrightarrow>
                 dat R ! i ! j = (if j = i - 1 then -1 else if j = i then 1 else 0))
           \<and> (\<forall>i. 0 < i \<and> i < nat n \<longrightarrow> sum_list (dat R ! i) = 0)"
proof -
  define m where "m = nat n"
  have mpos: "0 < m" and n1: "nat (n + 1) = m + 1" and nm1: "nat (n - 1) = m - 1"
    and n0: "0 \<le> n"
    using assms by (auto simp: m_def)
  from calc_R_start[OF assms] obtain R2 where
    R2: "ebind (setitem2 (np_zeros2 (nat (n + 1)) (nat n)) 0 0 1)
                 (\<lambda>R1. ebind (setitem2 R1 (-1) (-1) (-1)) Inr) = Inr R2"
      "nrow R2 = m + 1" "ncol R2 = m" "length (dat R2) = m + 1"
      "dat R2 ! 0 = (replicate m 0)[0 := 1]"
      "dat R2 ! m = (replicate m 0)[m - 1 := -1]"
      "\<forall>i. 0 < i \<and> i < m \<longrightarrow> dat R2 ! i = replicate m 0"
    unfolding m_def by blast
  have cr: "calc_R n = calc_R_loop n [0 ..< nrow R2] R2"
    using R2(1) n0 by (auto simp: calc_R_def ebind_def split: sum.splits)
  have pre: "distinct [0 ..< nrow R2]" "\<forall>i\<in>set [0 ..< nrow R2]. i < length (dat R2)"
    "ncol R2 = nat n" "length (dat R2) = nat n + 1"
    using R2 by (auto simp: m_def)
  from calc_R_loop_rows[OF pre n0] obtain R where
    R: "calc_R_loop n [0 ..< nrow R2] R2 = Inr R" "nrow R = nrow R2" "ncol R = ncol R2"
      "length (dat R) = length (dat R2)"
      "\<forall>i < length (dat R2). dat R ! i =
          (if i \<in> set [0 ..< nrow R2] \<and> i \<noteq> 0 \<and> int i \<noteq> n
           then take (i - 1) (dat R2 ! i) @ [-1, 1] @ drop (i + 1) (dat R2 ! i)
           else dat R2 ! i)"
    by blast
  have row0: "dat R ! 0 = (replicate m 0)[0 := 1]"
    using R(5) R2 by simp
  have rowm: "dat R ! m = (replicate m 0)[m - 1 := -1]"
    using R(5) R2 n0 by (simp add: m_def)
  have rowi: "dat R ! i = take (i - 1) (replicate m 0) @ [-1, 1] @ drop (i + 1) (replicate m 0)"
    if "0 < i" "i < m" for i
  proof -
    have "int i \<noteq> n" using that by (auto simp: m_def)
    then show ?thesis using R(5) R2(2,4,7) that by simp
  qed
  have len: "\<forall>i < m + 1. length (dat R ! i) = m"
  proof (intro allI impI)
    fix i assume "i < m + 1"
    then consider "i = 0" | "0 < i \<and> i < m" | "i = m" by linarith
    then show "length (dat R ! i) = m"
      using row0 rowm rowi interior_row_length[of i m] by cases auto
  qed
  have e00: "dat R ! 0 ! 0 = 1" using row0 mpos by simp
  have enn: "dat R ! m ! (m - 1) = -1" using rowm mpos by simp
  have inter: "\<forall>i j. 0 < i \<and> i < m \<and> j < m \<longrightarrow>
                 dat R ! i ! j = (if j = i - 1 then -1 else if j = i then 1 else 0)"
    using rowi interior_row_nth by simp
  have sums: "\<forall>i. 0 < i \<and> i < m \<longrightarrow> sum_list (dat R ! i) = 0"
  proof (intro allI impI)
    fix i assume "0 < i \<and> i < m"
    then show "sum_list (dat R ! i) = 0"
      using rowi[of i] interior_row_sum[of i m] by simp
  qed
  show ?thesis
    unfolding cr n1 nm1 m_def[symmetric]
    using R(1-4) R2(2-4) len e00 enn inter sums by simp
qed

theorem calc_R_structure_witness:
  "\<exists>R. calc_R 3 = Inr R \<and> nrow R = 4 \<and> ncol R = 3
       \<and> dat R ! 0 ! 0 = 1 \<and> dat R ! 3 ! 2 = -1
       \<and> dat R ! 1 ! 0 = -1 \<and> dat R ! 1 ! 1 = 1 \<and> dat R ! 1 ! 2 = 0
       \<and> sum_list (dat R ! 1) = 0 \<and> sum_list (dat R ! 2) = 0"
proof -
  have h: "(1::int) \<le> 3" by simp
  from calc_R_structure[OF h] obtain R where
    R: "calc_R 3 = Inr R" "nrow R = nat (3 + 1)" "ncol R = nat 3"
      "dat R ! 0 ! 0 = 1" "dat R ! nat 3 ! nat (3 - 1) = -1"
      "\<forall>i j. 0 < i \<and> i < nat 3 \<and> j < nat 3 \<longrightarrow>
                 dat R ! i ! j = (if j = i - 1 then -1 else if j = i then 1 else 0)"
      "\<forall>i. 0 < i \<and> i < nat 3 \<longrightarrow> sum_list (dat R ! i) = 0"
    by blast
  have a: "dat R ! 1 ! 0 = -1" using R(6)[rule_format, of 1 0] by simp
  have b: "dat R ! 1 ! 1 = 1" using R(6)[rule_format, of 1 1] by simp
  have c: "dat R ! 1 ! 2 = 0" using R(6)[rule_format, of 1 2] by simp
  have d: "sum_list (dat R ! 1) = 0" using R(7)[rule_format, of 1] by simp
  have e: "sum_list (dat R ! 2) = 0" using R(7)[rule_format, of 2] by simp
  show ?thesis using R(1-5) a b c d e by simp
qed



section \<open>Properties of the forward kernel\<close>







section \<open>Properties of the Jacobian estimator\<close>








section \<open>Properties of the forward prediction\<close>

lemma check_name_PyInt: "check_name (PyInt n) allowed = Inl ValueError"
  by (induction allowed) (simp_all add: check_name_def py_in_def)

text \<open>
  Claim C6 says that a \<^verbatim>\<open>calibration\<close> or \<^verbatim>\<open>ref_frame\<close> argument that is not a string raises
  \<open>TypeError\<close>, as the docstring of the function does. The code tests membership in the
  list of names before it tests the type, so an integer argument never reaches the type
  test: the call fails with \<open>ValueError\<close>, whatever the other arguments are.
\<close>

theorem geologic_history_nonstring_ValueError:
  "geologic_history env t T ed d0 d0_std (PyInt n) ref_frame nlam kwargs = Inl ValueError \<and>
   geologic_history env t T ed d0 d0_std (PyStr ''Bea17'') (PyInt n) nlam kwargs = Inl ValueError"
  by (simp add: geologic_history_def check_name_PyInt ebind_def)
     (simp add: check_name_def py_in_def)

text \<open>
  Claim C7. A call with \<open>len(T) \<noteq> len(t)\<close>, and a call with a calibration string outside
  \<open>{PH12, SE15, Bea17}\<close>, fails with \<open>ValueError\<close>; no calibration table and no forward function
  is consulted, since the result is the same for every environment, and nothing is
  returned. (In the length check the error is raised while the message is formatted,
  \<^verbatim>\<open>%n\<close> being no format character; it is a \<open>ValueError\<close> all the same.)
\<close>

theorem geologic_history_validation:
  assumes "length T \<noteq> length t \<or>
           (\<exists>s. calibration = PyStr s \<and> s \<notin> set [''PH12'', ''SE15'', ''Bea17''])"
  shows "geologic_history env t T ed d0 d0_std calibration ref_frame nlam kwargs = Inl ValueError"
  using assms
  by (auto simp: geologic_history_def check_name_def py_in_def ebind_def)


lemma upt7: "[0 ..< 7] = [0, 1, 2, 3, 4, 5, 6::nat]"
  by (simp add: upt_rec)

lemma rep7: "replicate 7 x = [x, x, x, x, x, x, x]"
  by (simp add: numeral_eq_Suc)

lemma rep1: "replicate 1 x = [x]"
  by simp

lemma rep6: "replicate 6 x = [x, x, x, x, x, x]"
  by (simp add: numeral_eq_Suc)

lemma rep2: "replicate 2 x = [x, x]"
  by (simp add: numeral_eq_Suc)

lemma upt3: "[0 ..< 3] = [0, 1, 2::nat]"
  by (simp add: upt_rec)

text \<open>
  Claim C1 says that for a descriptor of model type SE15 the routine calls the SE15
  forward function. The code calls \<^verbatim>\<open>_ghHH20\<close> in that branch, for the prediction and in
  the closure given to the Jacobian estimator: with forward functions that return the
  constant curves \<open>1\<close> (HH20) and \<open>2\<close> (SE15), the prediction for an SE15 descriptor is the
  curve \<open>1\<close>.
\<close>

theorem geologic_history_SE15_uses_ghHH20:
  "geologic_history
     \<lparr>caleqs = (\<lambda>c. Some (\<lambda>r. Some (\<lambda>T. T))),
      ghHea14 = (\<lambda>t p Deq T Tref nl. Inr (map (\<lambda>x. 0) t)),
      ghHH20 = (\<lambda>t p Deq T Tref nl. Inr (map (\<lambda>x. 1) t)),
      ghPH12 = (\<lambda>t p Deq T Tref nl. Inr (map (\<lambda>x. 0) t)),
      ghSE15 = (\<lambda>t p Deq T Tref nl. Inr (map (\<lambda>x. 2) t))\<rparr>
     [0] [300]
     \<lparr>model = ''SE15'', Tref = 300, Eparams = np_zeros2 2 3, Eparams_cov = np_zeros2 6 6\<rparr>
     [6 / 10, 0, 0] [0, 0, 0] (PyStr ''Bea17'') (PyStr ''CDES90'') 400 None
   = Inr ([1], [Some 0])"
proof -
  define p :: "real list" where "p = [0, 0, 0, 0, 0, 0, 3 / 5]"
  have J: "\<exists>h calls.
      Jacobian (\<lambda>t q. if length q = 7 then Inr (map (\<lambda>x. 1) t) else Inl TypeError)
        [0] [(Float64, p)] 0 (1 / 1000000) = Inr (h, np_zeros2 1 7, calls)"
    by (simp add: Jacobian_def Let_def p_def upt7 Jacobian_step_def np_copy_def np_iadd_def
        np_isub_def store_cast_def ebind_def np_sub_def np_div_scalar_def setcol_def
        np_zeros2_def rep7)
  then obtain h calls where
    J': "Jacobian (\<lambda>t q. if length q = 7 then Inr (map (\<lambda>x. 1) t) else Inl TypeError)
        [0] [(Float64, p)] 0 (1 / 1000000) = Inr (h, np_zeros2 1 7, calls)" by blast
  have fl: "flattenT (np_zeros2 2 3) @ [3 / 5] = p"
    by (simp add: flattenT_def np_zeros2_def p_def upt3 rep2)
  have cov: "append_D0_cov (np_zeros2 6 6) 0 = Inr (np_zeros2 7 7)"
    by (simp add: append_D0_cov_def np_zeros2_def Let_def rep6 rep7)
  have tr: "transpose2 (np_zeros2 (Suc 0) 7) = np_zeros2 7 (Suc 0)"
    by (simp add: transpose2_def np_zeros2_def upt7 rep7)
  have d1: "np_dot (np_zeros2 7 7) (np_zeros2 7 (Suc 0)) = Inr (np_zeros2 7 (Suc 0))"
    by (simp add: np_dot_def np_zeros2_def rep7)
  have d2: "np_dot (np_zeros2 (Suc 0) 7) (np_zeros2 7 (Suc 0)) = Inr (np_zeros2 (Suc 0) (Suc 0))"
    by (simp add: np_dot_def np_zeros2_def rep7)
  have dg: "np_sqrt (np_diag (np_zeros2 (Suc 0) (Suc 0))) = [Some 0]"
    by (simp add: np_sqrt_def np_diag_def np_zeros2_def)
  show ?thesis
    by (simp add: geologic_history_def check_name_def py_in_def ebind_def lookup2_def
        getitem_def py_index_def dispatch_def Let_def fl cov J' tr d1 d2 dg)
qed


lemma dispatch_ignores_ghSE15: "dispatch (env\<lparr>ghSE15 := g\<rparr>) ed nlam = dispatch env ed nlam"
  by (simp add: dispatch_def)

text \<open>
  No call of \<^verbatim>\<open>geologic_history\<close> consults \<^verbatim>\<open>_ghSE15\<close>: replacing it changes no result.
\<close>

lemma geologic_history_ignores_ghSE15:
  "geologic_history (env\<lparr>ghSE15 := g\<rparr>) t T ed d0 d0_std calibration ref_frame nlam kwargs
   = geologic_history env t T ed d0 d0_std calibration ref_frame nlam kwargs"
  by (simp add: geologic_history_def dispatch_ignores_ghSE15)

text \<open>
  The type test is reached only by a value that is equal to an allowed name without
  being a string.
\<close>

lemma check_name_TypeError:
  "check_name (PyUnicode ''PH12'') [''PH12'', ''SE15'', ''Bea17''] = Inl TypeError"
  by (simp add: check_name_def py_in_def)

text \<open>
  The statement of C7 at arrays of different lengths and at the calibration \<open>bogus\<close>.
\<close>

theorem geologic_history_validation_witness:
  "geologic_history
     \<lparr>caleqs = (\<lambda>c. Some (\<lambda>r. Some (\<lambda>T. T))),
      ghHea14 = (\<lambda>t p Deq T Tref nl. Inr t), ghHH20 = (\<lambda>t p Deq T Tref nl. Inr t),
      ghPH12 = (\<lambda>t p Deq T Tref nl. Inr t), ghSE15 = (\<lambda>t p Deq T Tref nl. Inr t)\<rparr>
     [0, 1] [300]
     \<lparr>model = ''Hea14'', Tref = 300, Eparams = np_zeros2 2 3, Eparams_cov = np_zeros2 6 6\<rparr>
     [6 / 10, 0, 0] [0, 0, 0] (PyStr ''Bea17'') (PyStr ''CDES90'') 400 None = Inl ValueError
   \<and> geologic_history
     \<lparr>caleqs = (\<lambda>c. Some (\<lambda>r. Some (\<lambda>T. T))),
      ghHea14 = (\<lambda>t p Deq T Tref nl. Inr t), ghHH20 = (\<lambda>t p Deq T Tref nl. Inr t),
      ghPH12 = (\<lambda>t p Deq T Tref nl. Inr t), ghSE15 = (\<lambda>t p Deq T Tref nl. Inr t)\<rparr>
     [0] [300]
     \<lparr>model = ''Hea14'', Tref = 300, Eparams = np_zeros2 2 3, Eparams_cov = np_zeros2 6 6\<rparr>
     [6 / 10, 0, 0] [0, 0, 0] (PyStr ''bogus'') (PyStr ''CDES90'') 400 None = Inl ValueError"
proof -
  have a: "length [300 :: real] \<noteq> length [0, 1 :: real] \<or>
           (\<exists>s. PyStr ''Bea17'' = PyStr s \<and> s \<notin> set [''PH12'', ''SE15'', ''Bea17''])"
    by simp
  have b: "length [300 :: real] \<noteq> length [0 :: real] \<or>
           (\<exists>s. PyStr ''bogus'' = PyStr s \<and> s \<notin> set [''PH12'', ''SE15'', ''Bea17''])"
    by simp
  show ?thesis
    using geologic_history_validation[OF a] geologic_history_validation[OF b] by simp
qed



section \<open>Properties of the rounding\<close>

lemma rne_cert:
  assumes "\<bar>y - of_int m\<bar> < 1 / 2 \<or> (\<bar>y - of_int m\<bar> = 1 / 2 \<and> even m)"
  shows "rne y = m"
proof -
  have "y - of_int m = 1 / 2 \<or> of_int m - y = 1 / 2" if "\<bar>y - of_int m\<bar> = 1 / 2"
    using that by linarith
  with assms consider
      (lt) "\<bar>y - of_int m\<bar> < 1 / 2"
    | (up) "y - of_int m = 1 / 2" "even m"
    | (dn) "of_int m - y = 1 / 2" "even m"
    by blast
  then show ?thesis
  proof cases
    case lt
    have "\<lfloor>y\<rfloor> = m \<or> \<lfloor>y\<rfloor> = m - 1" using lt by linarith
    then show ?thesis
    proof
      assume f: "\<lfloor>y\<rfloor> = m"
      then have "y - of_int m < 1 / 2" using lt by linarith
      then show ?thesis using f by (simp add: rne_def Let_def)
    next
      assume f: "\<lfloor>y\<rfloor> = m - 1"
      have "- (1 / 2) < y - of_int m" using lt by linarith
      then have "1 / 2 < y - of_int (m - 1)" by simp
      then show ?thesis using f by (simp add: rne_def Let_def)
    qed
  next
    case up
    have f: "\<lfloor>y\<rfloor> = m" using up(1) by linarith
    show ?thesis unfolding rne_def Let_def f up(1) using up(2) by simp
  next
    case dn
    have f: "\<lfloor>y\<rfloor> = m - 1" using dn(1) by linarith
    have d: "y - of_int (m - 1) = 1 / 2" using dn(1) by simp
    show ?thesis unfolding rne_def Let_def f d using dn(2) by simp
  qed
qed

lemma quantum_normal:
  assumes "2 powi e \<le> \<bar>x\<bar>" "\<bar>x\<bar> < 2 powi (e + 1)" "- 1022 \<le> e"
  shows "quantum x = 2 powi (e - 52)"
proof -
  have pos: "0 < \<bar>x\<bar>" using assms(1) by (smt (verit) zero_less_power_int)
  have p1: "(2::real) powr (real_of_int e) = 2 powi e"
    using powr_real_of_int'[of "2::real" e] by simp
  have p2: "(2::real) powr (real_of_int e + 1) = 2 powi (e + 1)"
    using powr_real_of_int'[of "2::real" "e + 1"] by simp
  have "\<lfloor>log 2 \<bar>x\<bar>\<rfloor> = e"
    using floor_log_eq_powr_iff[of "\<bar>x\<bar>" 2 e] pos assms(1,2)
    by (simp add: p1 p2)
  then show ?thesis using assms(3) by (simp add: quantum_def)
qed

lemma quantum_subnormal:
  assumes "x \<noteq> 0" "\<bar>x\<bar> < 2 powi (- 1022)"
  shows "quantum x = 2 powi (- 1074)"
proof -
  have pos: "0 < \<bar>x\<bar>" using assms(1) by simp
  have "log 2 \<bar>x\<bar> < log 2 (2 powi (- 1022))"
    using pos assms(2) by (simp add: log_less_cancel_iff)
  also have "log 2 (2 powi (- 1022)) = - 1022"
  proof -
    have "(2::real) powi (- 1022) = 2 powr (real_of_int (- 1022))"
      using powr_real_of_int'[of "2::real" "- 1022"] by simp
    then show ?thesis by (simp only: log_powr_cancel)
  qed
  finally have "\<lfloor>log 2 \<bar>x\<bar>\<rfloor> < - 1022" by linarith
  then show ?thesis by (simp add: quantum_def max_def)
qed


lemma b64_cert:
  assumes q: "q = 2 powi k" and k: "- 1074 \<le> k"
    and lo: "k = - 1074 \<or> 2 ^ 52 * q \<le> \<bar>x\<bar>"
    and hi: "\<bar>x\<bar> < 2 ^ 53 * q"
    and near: "\<bar>x - of_int m * q\<bar> < q / 2 \<or> (\<bar>x - of_int m * q\<bar> = q / 2 \<and> even m)"
  shows "b64 x = of_int m * q"
proof (cases "x = 0")
  case True
  have qpos: "0 < q" by (simp add: q)
  from near have "\<bar>x - of_int m * q\<bar> \<le> q / 2" by linarith
  then have "\<bar>of_int m * q\<bar> \<le> q / 2" using True by simp
  then have "\<bar>of_int m\<bar> * q \<le> q / 2" using qpos by (simp add: abs_mult)
  then have "\<bar>real_of_int m\<bar> * q \<le> (1 / 2) * q" by simp
  then have "\<bar>real_of_int m\<bar> \<le> 1 / 2" using qpos by (simp only: mult_le_cancel_right_pos)
  then have "m = 0" by linarith
  with True show ?thesis by (simp add: b64_def)
next
  case False
  have qpos: "0 < q" by (simp add: q)
  have e52: "(2::real) ^ 52 * 2 powi k = 2 powi (k + 52)"
    by (simp add: power_int_add)
  have e53: "(2::real) ^ 53 * 2 powi k = 2 powi (k + 52 + 1)"
    by (simp add: power_int_add)
  have qx: "quantum x = q"
  proof (cases "2 ^ 52 * q \<le> \<bar>x\<bar>")
    case True
    have "quantum x = 2 powi (k + 52 - 52)"
      using quantum_normal[of "k + 52" x] True hi k unfolding q e52 e53 by simp
    then show ?thesis by (simp add: q)
  next
    case F: False
    with lo have k': "k = - 1074" by simp
    have "\<bar>x\<bar> < 2 powi (- 1022)"
      using F unfolding q e52 k' by simp
    then show ?thesis using quantum_subnormal[OF False] by (simp add: q k')
  qed
  have "x / q - of_int m = (x - of_int m * q) / q"
    using qpos by (simp add: field_simps)
  then have a: "\<bar>x / q - of_int m\<bar> = \<bar>x - of_int m * q\<bar> / q"
    using qpos by (simp only: abs_divide abs_of_pos)
  have "\<bar>x / q - of_int m\<bar> < 1 / 2 \<or> (\<bar>x / q - of_int m\<bar> = 1 / 2 \<and> even m)"
    using near qpos unfolding a by (auto simp: field_simps)
  then have "rne (x / q) = m" by (rule rne_cert)
  then show ?thesis using False by (simp add: b64_def qx)
qed

text \<open>
  A certificate for one rounding: the quantum \<open>q = 2^k\<close> of the exact result \<open>x\<close> and the
  integer \<open>m\<close> with \<open>m * q\<close> nearest to \<open>x\<close>.
\<close>

lemma fround_cert:
  assumes "q = 2 powi k" "- 1074 \<le> k" "k = - 1074 \<or> 2 ^ 52 * q \<le> \<bar>x\<bar>"
    "\<bar>x\<bar> < 2 ^ 53 * q"
    "\<bar>x - of_int m * q\<bar> < q / 2 \<or> (\<bar>x - of_int m * q\<bar> = q / 2 \<and> even m)"
    and r: "r = of_int m * q" "r \<noteq> 0" "\<bar>r\<bar> < 2 ^ 1024"
  shows "fround s x = Fin r"
proof -
  have "b64 x = r" using b64_cert[OF assms(1-5)] r(1) by simp
  then show ?thesis using r(2,3) by (auto simp: fround_def Let_def)
qed

lemma fadd_Fin:
  "fadd (Fin a) (Fin b) = (if a + b = 0 then Fin 0 else fround (a + b < 0) (a + b))"
  by (auto simp: fadd_def Let_def)

lemma fsub_Fin:
  "fsub (Fin a) (Fin b) = (if a - b = 0 then Fin 0 else fround (a - b < 0) (a - b))"
  by (auto simp: fsub_def fadd_def Let_def)

lemma fmul_Fin: "fmul (Fin a) (Fin b) = fround ((a < 0) \<noteq> (b < 0)) (a * b)"
  by (simp add: fmul_def)

lemma fdiv_Fin: "b \<noteq> 0 \<Longrightarrow> fdiv (Fin a) (Fin b) = fround ((a < 0) \<noteq> (b < 0)) (a / b)"
  by (simp add: fdiv_def)

lemma fadd_cert:
  assumes "q = 2 powi k" "- 1074 \<le> k" "k = - 1074 \<or> 2 ^ 52 * q \<le> \<bar>a + b\<bar>"
    "\<bar>a + b\<bar> < 2 ^ 53 * q"
    "\<bar>a + b - of_int m * q\<bar> < q / 2 \<or> (\<bar>a + b - of_int m * q\<bar> = q / 2 \<and> even m)"
    "r = of_int m * q" "r \<noteq> 0" "\<bar>r\<bar> < 2 ^ 1024" "a + b \<noteq> 0"
  shows "fadd (Fin a) (Fin b) = Fin r"
  using fround_cert[OF assms(1-8)] assms(9) by (simp add: fadd_Fin)

lemma fsub_cert:
  assumes "q = 2 powi k" "- 1074 \<le> k" "k = - 1074 \<or> 2 ^ 52 * q \<le> \<bar>a - b\<bar>"
    "\<bar>a - b\<bar> < 2 ^ 53 * q"
    "\<bar>a - b - of_int m * q\<bar> < q / 2 \<or> (\<bar>a - b - of_int m * q\<bar> = q / 2 \<and> even m)"
    "r = of_int m * q" "r \<noteq> 0" "\<bar>r\<bar> < 2 ^ 1024" "a - b \<noteq> 0"
  shows "fsub (Fin a) (Fin b) = Fin r"
  using fround_cert[OF assms(1-8)] assms(9) by (simp add: fsub_Fin)

lemma fmul_cert:
  assumes "q = 2 powi k" "- 1074 \<le> k" "k = - 1074 \<or> 2 ^ 52 * q \<le> \<bar>a * b\<bar>"
    "\<bar>a * b\<bar> < 2 ^ 53 * q"
    "\<bar>a * b - of_int m * q\<bar> < q / 2 \<or> (\<bar>a * b - of_int m * q\<bar> = q / 2 \<and> even m)"
    "r = of_int m * q" "r \<noteq> 0" "\<bar>r\<bar> < 2 ^ 1024"
  shows "fmul (Fin a) (Fin b) = Fin r"
  using fround_cert[OF assms(1-8)] by (simp add: fmul_Fin)

lemma fdiv_cert:
  assumes "q = 2 powi k" "- 1074 \<le> k" "k = - 1074 \<or> 2 ^ 52 * q \<le> \<bar>a / b\<bar>"
    "\<bar>a / b\<bar> < 2 ^ 53 * q"
    "\<bar>a / b - of_int m * q\<bar> < q / 2 \<or> (\<bar>a / b - of_int m * q\<bar> = q / 2 \<and> even m)"
    "r = of_int m * q" "r \<noteq> 0" "\<bar>r\<bar> < 2 ^ 1024" "b \<noteq> 0"
  shows "fdiv (Fin a) (Fin b) = Fin r"
  using fround_cert[OF assms(1-8)] assms(9) by (simp add: fdiv_Fin)

lemma fround_zero [simp]: "fround s 0 = fzero s"
  by (simp add: fround_def b64_def fzero_def)

lemma fround_one [simp]: "fround s 1 = Fin 1"
  by (rule fround_cert[where k = "- 52" and m = 4503599627370496 and q = "1 / 4503599627370496"])
     simp_all

lemma is_zero_cases: "is_zero z \<Longrightarrow> z = Fin 0 \<or> z = NZero"
  by (cases z) auto

lemma is_zero_fzero [simp]: "is_zero (fzero s)"
  by (simp add: fzero_def)

lemma fmul_finite_zero:
  assumes "is_finite a" "is_zero b"
  shows "is_zero (fmul a b)"
  using assms by (cases a; cases b) (auto simp: fmul_def)

lemma fadd_zero_zero:
  assumes "is_zero a" "is_zero b"
  shows "is_zero (fadd a b)"
  using assms by (cases a; cases b) (auto simp: fadd_def)

lemma is_finite_fneg [simp]: "is_finite (fneg a) = is_finite a"
  by (cases a) auto

lemma fsub_self_one [simp]: "fsub (Fin 1) (Fin 1) = Fin 0"
  by (simp add: fsub_def fadd_def)

lemma fadd_commute: "fadd a b = fadd b a"
  by (cases a; cases b) (auto simp: fadd_def add.commute)

lemma fmul_commute: "fmul a b = fmul b a"
proof -
  have s: "(fsign a \<noteq> fsign b) = (fsign b \<noteq> fsign a)" by auto
  have m: "rval a * rval b = rval b * rval a" by simp
  show ?thesis
    unfolding fmul_def s m by auto
qed

text \<open>A result at or beyond \<open>2^1024\<close> is an infinity.\<close>

lemma floor_log2_bounds:
  assumes "0 < x"
  shows "2 powi \<lfloor>log 2 x\<rfloor> \<le> x" "x < 2 powi (\<lfloor>log 2 x\<rfloor> + 1)"
proof -
  define e where "e = \<lfloor>log 2 x\<rfloor>"
  have p1: "(2::real) powr (real_of_int e) = 2 powi e"
    using powr_real_of_int'[of "2::real" e] by simp
  have p2: "(2::real) powr (real_of_int e + 1) = 2 powi (e + 1)"
    using powr_real_of_int'[of "2::real" "e + 1"] by simp
  have "2 powr (real_of_int e) \<le> x \<and> x < 2 powr (real_of_int e + 1)"
    using floor_log_eq_powr_iff[of x 2 e] assms by (simp add: e_def)
  then have "2 powi e \<le> x \<and> x < 2 powi (e + 1)"
    by (simp only: p1 p2)
  then show "2 powi \<lfloor>log 2 x\<rfloor> \<le> x" "x < 2 powi (\<lfloor>log 2 x\<rfloor> + 1)"
    unfolding e_def by blast+
qed

lemma rne_ge_floor: "\<lfloor>y\<rfloor> \<le> rne y"
  by (simp add: rne_def Let_def)

lemma rne_le_ceiling: "rne y \<le> \<lceil>y\<rceil>"
proof -
  have "y = of_int \<lfloor>y\<rfloor> \<or> \<lceil>y\<rceil> = \<lfloor>y\<rfloor> + 1" by linarith
  then show ?thesis
    by (auto simp: rne_def Let_def)
qed

lemma b64_ge_pow2:
  assumes "- 1022 \<le> e" "2 powi e \<le> x"
  shows "2 powi e \<le> b64 x"
proof -
  have xpos: "0 < x" using assms(2) by (smt (verit) zero_less_power_int)
  define E where "E = \<lfloor>log 2 x\<rfloor>"
  have E: "2 powi E \<le> x" "x < 2 powi (E + 1)"
    using floor_log2_bounds[OF xpos] by (simp_all add: E_def)
  have eE: "e \<le> E"
  proof (rule ccontr)
    assume "\<not> e \<le> E"
    then have "E + 1 \<le> e" by simp
    then have "(2::real) powi (E + 1) \<le> 2 powi e" by (simp add: power_int_increasing)
    with E(2) assms(2) show False by linarith
  qed
  then have E1022: "- 1022 \<le> E" using assms(1) by simp
  define q :: real where "q = 2 powi (E - 52)"
  have qpos: "0 < q" by (simp add: q_def)
  have qx: "quantum x = q"
    using E1022 by (simp add: quantum_def E_def[symmetric] q_def xpos abs_of_pos)
  have "(2::real) ^ 52 * q = 2 powi E"
    by (simp add: q_def power_int_diff)
  then have "2 ^ 52 \<le> x / q" using E(1) qpos by (simp add: field_simps)
  then have "(2::int) ^ 52 \<le> \<lfloor>x / q\<rfloor>" by (simp add: le_floor_iff)
  then have "(2::int) ^ 52 \<le> rne (x / q)" using rne_ge_floor[of "x / q"] by linarith
  then have "(2::real) ^ 52 \<le> of_int (rne (x / q))"
    by (metis of_int_le_iff of_int_numeral of_int_power)
  then have "2 ^ 52 * q \<le> of_int (rne (x / q)) * q" using qpos by simp
  then have "2 powi E \<le> b64 x"
    using xpos \<open>(2::real) ^ 52 * q = 2 powi E\<close> by (simp add: b64_def qx)
  moreover have "(2::real) powi e \<le> 2 powi E" using eE by (simp add: power_int_increasing)
  ultimately show ?thesis by linarith
qed

lemma fround_overflow:
  assumes "2 ^ 1024 \<le> x"
  shows "fround s x = PInf"
proof -
  have "(2::real) powi 1024 \<le> x" using assms by simp
  then have "2 powi 1024 \<le> b64 x" by (intro b64_ge_pow2) simp_all
  then show ?thesis by (simp add: fround_def Let_def)
qed

section \<open>Properties of the transient-defect model\<close>

lemma exp_2000_overflows: "(2::real) ^ 1024 \<le> exp 2000"
proof -
  have "(2::real) \<le> exp 1" using exp_ge_add_one_self[of "1::real"] by simp
  then have "(2::real) ^ 2000 \<le> exp 1 ^ 2000" by (intro power_mono) simp_all
  also have "exp 1 ^ 2000 = exp (2000::real)"
    using exp_of_nat_mult[of 2000 "1::real"] by simp
  finally have "(2::real) ^ 2000 \<le> exp 2000" .
  moreover have "(2::real) ^ 1024 \<le> 2 ^ 2000" by (intro power_increasing) simp_all
  ultimately show ?thesis by linarith
qed

text \<open>
  Claim C9 as stated fails: with \<open>lnk2 = 2000\<close> the rate constant \<open>k2\<close> overflows to an
  infinity, \<open>-k2 * 0\<close> is \<^verbatim>\<open>nan\<close>, and so is the value of the model at \<open>t = 0\<close>.
\<close>

theorem fHea14_overflow_counterexample:
  "fHea14 ref_lib [Fin 0] (Fin 0) (Fin 0) (Fin 2000) = [NaN]"
proof -
  have k2: "fround False (exp 2000) = PInf"
    by (rule fround_overflow[OF exp_2000_overflows])
  show ?thesis
    by (simp add: fHea14_def ref_lib_def k2 Let_def fmul_def fdiv_def fadd_def fsub_def fzero_def)
qed

text \<open>
  Claim C9, amended. For all parameter values for which the rate constants \<open>kc\<close> and \<open>k2\<close>
  and the quotient \<open>kd / k2\<close> are finite doubles (no exponential overflows, the quotient
  neither), the transient-defect model returns exactly \<open>1.0\<close> at every time point that is
  zero; the result has one entry per time point. Of the library no more is used than
  \<open>exp 0 = 1\<close>.
\<close>

theorem fHea14_at_zero:
  assumes exp0: "np_exp lib (Fin 0) = Fin 1" "np_exp lib NZero = Fin 1"
    and fin: "is_finite (np_exp lib lnkc)" "is_finite (np_exp lib lnk2)"
      "is_finite (fdiv (np_exp lib lnkd) (np_exp lib lnk2))"
  shows "length (fHea14 lib t lnkc lnkd lnk2) = length t \<and>
         (\<forall>i < length t. is_zero (t ! i) \<longrightarrow> fHea14 lib t lnkc lnkd lnk2 ! i = Fin 1)"
proof -
  have ez: "np_exp lib z = Fin 1" if "is_zero z" for z
    using is_zero_cases[OF that] exp0 by auto
  have v: "np_exp lib (fadd (fmul (fneg (np_exp lib lnkc)) ti)
             (fmul (fdiv (np_exp lib lnkd) (np_exp lib lnk2))
                   (fsub (np_exp lib (fmul (fneg (np_exp lib lnk2)) ti)) (Fin 1)))) = Fin 1"
    if z: "is_zero ti" for ti
  proof -
    have a: "is_zero (fmul (fneg (np_exp lib lnkc)) ti)"
      using fin(1) z by (intro fmul_finite_zero) simp_all
    have b: "is_zero (fmul (fneg (np_exp lib lnk2)) ti)"
      using fin(2) z by (intro fmul_finite_zero) simp_all
    have c: "fsub (np_exp lib (fmul (fneg (np_exp lib lnk2)) ti)) (Fin 1) = Fin 0"
      by (simp add: ez[OF b])
    have d: "is_zero (fmul (fdiv (np_exp lib lnkd) (np_exp lib lnk2)) (Fin 0))"
      using fin(3) by (intro fmul_finite_zero) simp_all
    show ?thesis
      unfolding c by (intro ez fadd_zero_zero a d)
  qed
  show ?thesis
    using v by (simp add: fHea14_def Let_def)
qed

text \<open>The amended C9 for the reference library at \<open>lnkc = lnkd = lnk2 = 0\<close>.\<close>

theorem fHea14_at_zero_witness:
  "fHea14 ref_lib [Fin 0, NZero] (Fin 0) (Fin 0) (Fin 0) = [Fin 1, Fin 1]"
proof -
  have e: "np_exp ref_lib (Fin 0) = Fin 1" "np_exp ref_lib NZero = Fin 1"
    by (simp_all add: ref_lib_def)
  have d: "fdiv (Fin 1) (Fin 1) = Fin 1" by (simp add: fdiv_def)
  have f: "is_finite (np_exp ref_lib (Fin 0))"
    "is_finite (fdiv (np_exp ref_lib (Fin 0)) (np_exp ref_lib (Fin 0)))"
    by (simp_all add: e d)
  from fHea14_at_zero[OF e f(1) f(1) f(2), of "[Fin 0, NZero]"]
  have l: "length (fHea14 ref_lib [Fin 0, NZero] (Fin 0) (Fin 0) (Fin 0)) = 2"
    and a: "fHea14 ref_lib [Fin 0, NZero] (Fin 0) (Fin 0) (Fin 0) ! 0 = Fin 1"
    and b: "fHea14 ref_lib [Fin 0, NZero] (Fin 0) (Fin 0) (Fin 0) ! 1 = Fin 1"
    by auto
  from l obtain u w where uw: "fHea14 ref_lib [Fin 0, NZero] (Fin 0) (Fin 0) (Fin 0) = [u, w]"
    by (auto simp: length_Suc_conv numeral_2_eq_2)
  with a b show ?thesis by simp
qed

section \<open>Properties of the equilibrium pair ratio\<close>

text \<open>
  The roundings of \<^verbatim>\<open>_calc_Rpeq(0.2, 0.4, 0.1, 1)\<close> and of the call with the first two
  arguments exchanged, one by one. The arguments are the doubles nearest to \<open>0.2\<close>, \<open>0.4\<close>
  and \<open>0.1\<close>.
\<close>

lemma Rpeq_round_1: "fadd (Fin 1) (Fin (3602879701896397 / 18014398509481984)) = Fin (5404319552844595 / 4503599627370496)"
  by (rule fadd_cert[where k = "- 52" and m = 5404319552844595 and q = "1 / 4503599627370496"]) simp_all

lemma Rpeq_round_2: "fadd (Fin (5404319552844595 / 4503599627370496)) (Fin (3602879701896397 / 9007199254740992)) = Fin (3602879701896397 / 2251799813685248)"
  by (rule fadd_cert[where k = "- 52" and m = 7205759403792794 and q = "1 / 4503599627370496"]) simp_all

lemma Rpeq_round_3: "fadd (Fin (3602879701896397 / 2251799813685248)) (Fin (3602879701896397 / 36028797018963968)) = Fin (1914029841632461 / 1125899906842624)"
  by (rule fadd_cert[where k = "- 52" and m = 7656119366529844 and q = "1 / 4503599627370496"]) simp_all

lemma Rpeq_round_4: "fdiv (Fin 1) (Fin (1914029841632461 / 1125899906842624)) = Fin (2649176251394409 / 4503599627370496)"
  by (rule fdiv_cert[where k = "- 53" and m = 5298352502788818 and q = "1 / 9007199254740992"]) simp_all

lemma Rpeq_round_5: "fmul (Fin (3602879701896397 / 18014398509481984)) (Fin (2649176251394409 / 4503599627370496)) = Fin (8477364004462109 / 72057594037927936)"
  by (rule fmul_cert[where k = "- 56" and m = 8477364004462109 and q = "1 / 72057594037927936"]) simp_all

lemma Rpeq_round_6: "fmul (Fin (3602879701896397 / 9007199254740992)) (Fin (2649176251394409 / 4503599627370496)) = Fin (8477364004462109 / 36028797018963968)"
  by (rule fmul_cert[where k = "- 55" and m = 8477364004462109 and q = "1 / 36028797018963968"]) simp_all

lemma Rpeq_round_7: "fsub (Fin 1) (Fin (8477364004462109 / 72057594037927936)) = Fin (1986882188545807 / 2251799813685248)"
  by (rule fsub_cert[where k = "- 53" and m = 7947528754183228 and q = "1 / 9007199254740992"]) simp_all

lemma Rpeq_round_8: "fround s (1986882188545807 / 2251799813685248) = Fin (1986882188545807 / 2251799813685248)"
  by (rule fround_cert[where k = "- 53" and m = 7947528754183228 and q = "1 / 9007199254740992"]) simp_all

lemma Rpeq_round_9: "fsub (Fin 1) (Fin (8477364004462109 / 36028797018963968)) = Fin (6887858253625465 / 9007199254740992)"
  by (rule fsub_cert[where k = "- 53" and m = 6887858253625465 and q = "1 / 9007199254740992"]) simp_all

lemma Rpeq_round_10: "fround s (6887858253625465 / 9007199254740992) = Fin (6887858253625465 / 9007199254740992)"
  by (rule fround_cert[where k = "- 53" and m = 6887858253625465 and q = "1 / 9007199254740992"]) simp_all

lemma Rpeq_round_11: "fsub (Fin 1) (Fin (1986882188545807 / 2251799813685248)) = Fin (264917625139441 / 2251799813685248)"
  by (rule fsub_cert[where k = "- 56" and m = 8477364004462112 and q = "1 / 72057594037927936"]) simp_all

lemma Rpeq_round_12: "fmul (Fin (8477364004462109 / 36028797018963968)) (Fin (264917625139441 / 2251799813685248)) = Fin (3989347766805699 / 144115188075855872)"
  by (rule fmul_cert[where k = "- 58" and m = 7978695533611398 and q = "1 / 288230376151711744"]) simp_all

lemma Rpeq_round_13: "fsub (Fin 1) (Fin (6887858253625465 / 9007199254740992)) = Fin (2119341001115527 / 9007199254740992)"
  by (rule fsub_cert[where k = "- 55" and m = 8477364004462108 and q = "1 / 36028797018963968"]) simp_all

lemma Rpeq_round_14: "fmul (Fin (8477364004462109 / 72057594037927936)) (Fin (2119341001115527 / 9007199254740992)) = Fin (7978695533611395 / 288230376151711744)"
  by (rule fmul_cert[where k = "- 58" and m = 7978695533611395 and q = "1 / 288230376151711744"]) simp_all

lemma Rpeq_round_15: "fadd (Fin (3989347766805699 / 144115188075855872)) (Fin (7978695533611395 / 288230376151711744)) = Fin (1994673883402849 / 36028797018963968)"
  by (rule fadd_cert[where k = "- 57" and m = 7978695533611396 and q = "1 / 144115188075855872"]) simp_all

lemma Rpeq_round_16: "fdiv (Fin (1994673883402849 / 36028797018963968)) (Fin 2) = Fin (1994673883402849 / 72057594037927936)"
  by (rule fdiv_cert[where k = "- 58" and m = 7978695533611396 and q = "1 / 288230376151711744"]) simp_all

lemma Rpeq_round_17: "fdiv (Fin (1994673883402849 / 72057594037927936)) (Fin (2649176251394409 / 4503599627370496)) = Fin (847736400446211 / 18014398509481984)"
  by (rule fdiv_cert[where k = "- 57" and m = 6781891203569688 and q = "1 / 144115188075855872"]) simp_all

lemma Rpeq_round_18: "fadd (Fin 1) (Fin (3602879701896397 / 9007199254740992)) = Fin (3152519739159347 / 2251799813685248)"
  by (rule fadd_cert[where k = "- 52" and m = 6305039478318694 and q = "1 / 4503599627370496"]) simp_all

lemma Rpeq_round_19: "fadd (Fin (3152519739159347 / 2251799813685248)) (Fin (3602879701896397 / 18014398509481984)) = Fin (7205759403792793 / 4503599627370496)"
  by (rule fadd_cert[where k = "- 52" and m = 7205759403792793 and q = "1 / 4503599627370496"]) simp_all

lemma Rpeq_round_20: "fadd (Fin (7205759403792793 / 4503599627370496)) (Fin (3602879701896397 / 36028797018963968)) = Fin (7656119366529843 / 4503599627370496)"
  by (rule fadd_cert[where k = "- 52" and m = 7656119366529843 and q = "1 / 4503599627370496"]) simp_all

lemma Rpeq_round_21: "fdiv (Fin 1) (Fin (7656119366529843 / 4503599627370496)) = Fin (5298352502788819 / 9007199254740992)"
  by (rule fdiv_cert[where k = "- 53" and m = 5298352502788819 and q = "1 / 9007199254740992"]) simp_all

lemma Rpeq_round_22: "fmul (Fin (3602879701896397 / 9007199254740992)) (Fin (5298352502788819 / 9007199254740992)) = Fin (8477364004462111 / 36028797018963968)"
  by (rule fmul_cert[where k = "- 55" and m = 8477364004462111 and q = "1 / 36028797018963968"]) simp_all

lemma Rpeq_round_23: "fmul (Fin (3602879701896397 / 18014398509481984)) (Fin (5298352502788819 / 9007199254740992)) = Fin (8477364004462111 / 72057594037927936)"
  by (rule fmul_cert[where k = "- 56" and m = 8477364004462111 and q = "1 / 72057594037927936"]) simp_all

lemma Rpeq_round_24: "fsub (Fin 1) (Fin (8477364004462111 / 36028797018963968)) = Fin (860982281703183 / 1125899906842624)"
  by (rule fsub_cert[where k = "- 53" and m = 6887858253625464 and q = "1 / 9007199254740992"]) simp_all

lemma Rpeq_round_25: "fround s (860982281703183 / 1125899906842624) = Fin (860982281703183 / 1125899906842624)"
  by (rule fround_cert[where k = "- 53" and m = 6887858253625464 and q = "1 / 9007199254740992"]) simp_all

lemma Rpeq_round_26: "fsub (Fin 1) (Fin (8477364004462111 / 72057594037927936)) = Fin (1986882188545807 / 2251799813685248)"
  by (rule fsub_cert[where k = "- 53" and m = 7947528754183228 and q = "1 / 9007199254740992"]) simp_all

lemma Rpeq_round_27: "fsub (Fin 1) (Fin (860982281703183 / 1125899906842624)) = Fin (264917625139441 / 1125899906842624)"
  by (rule fsub_cert[where k = "- 55" and m = 8477364004462112 and q = "1 / 36028797018963968"]) simp_all

lemma Rpeq_round_28: "fmul (Fin (8477364004462111 / 72057594037927936)) (Fin (264917625139441 / 1125899906842624)) = Fin (997336941701425 / 36028797018963968)"
  by (rule fmul_cert[where k = "- 58" and m = 7978695533611400 and q = "1 / 288230376151711744"]) simp_all

lemma Rpeq_round_29: "fmul (Fin (8477364004462111 / 36028797018963968)) (Fin (264917625139441 / 2251799813685248)) = Fin (997336941701425 / 36028797018963968)"
  by (rule fmul_cert[where k = "- 58" and m = 7978695533611400 and q = "1 / 288230376151711744"]) simp_all

lemma Rpeq_round_30: "fadd (Fin (997336941701425 / 36028797018963968)) (Fin (997336941701425 / 36028797018963968)) = Fin (997336941701425 / 18014398509481984)"
  by (rule fadd_cert[where k = "- 57" and m = 7978695533611400 and q = "1 / 144115188075855872"]) simp_all

lemma Rpeq_round_31: "fdiv (Fin (997336941701425 / 18014398509481984)) (Fin 2) = Fin (997336941701425 / 36028797018963968)"
  by (rule fdiv_cert[where k = "- 58" and m = 7978695533611400 and q = "1 / 288230376151711744"]) simp_all

lemma Rpeq_round_32: "fdiv (Fin (997336941701425 / 36028797018963968)) (Fin (5298352502788819 / 9007199254740992)) = Fin (3390945601784845 / 72057594037927936)"
  by (rule fdiv_cert[where k = "- 57" and m = 6781891203569690 and q = "1 / 144115188075855872"]) simp_all

text \<open>
  Claim C10 as stated fails: \<^verbatim>\<open>1 + R45 + R46 + R47\<close> is summed from left to right, and
  \<open>(1 + 0.2) + 0.4\<close> is not \<open>(1 + 0.4) + 0.2\<close> in doubles. The call
  \<^verbatim>\<open>_calc_Rpeq(0.2, 0.4, 0.1, 1)\<close> returns \<open>0.047058823529411764\<close>, the call with \<open>0.2\<close> and
  \<open>0.4\<close> exchanged \<open>0.04705882352941178\<close>.
\<close>

theorem calc_Rpeq_exchange_counterexample:
  "calc_Rpeq ref_lib PyFloat (Fin (3602879701896397 / 18014398509481984)) (Fin (3602879701896397 / 9007199254740992)) (Fin (3602879701896397 / 36028797018963968)) 1 =
     Inr (Fin (847736400446211 / 18014398509481984)) \<and>
   calc_Rpeq ref_lib PyFloat (Fin (3602879701896397 / 9007199254740992)) (Fin (3602879701896397 / 18014398509481984)) (Fin (3602879701896397 / 36028797018963968)) 1 =
     Inr (Fin (3390945601784845 / 72057594037927936)) \<and>
   calc_Rpeq ref_lib PyFloat (Fin (3602879701896397 / 18014398509481984)) (Fin (3602879701896397 / 9007199254740992)) (Fin (3602879701896397 / 36028797018963968)) 1 \<noteq>
   calc_Rpeq ref_lib PyFloat (Fin (3602879701896397 / 9007199254740992)) (Fin (3602879701896397 / 18014398509481984)) (Fin (3602879701896397 / 36028797018963968)) 1"
proof -
  have a: "calc_Rpeq ref_lib PyFloat (Fin (3602879701896397 / 18014398509481984)) (Fin (3602879701896397 / 9007199254740992)) (Fin (3602879701896397 / 36028797018963968)) 1 =
     Inr (Fin (847736400446211 / 18014398509481984))"
    by (simp add: ebind_def calc_Rpeq_def kdiv_def kpow_int_def kpow_def ref_lib_def ref_py_pow_def int_valued_def odd_valued_def Let_def
      Rpeq_round_1 Rpeq_round_2 Rpeq_round_3 Rpeq_round_4 Rpeq_round_5 Rpeq_round_6
      Rpeq_round_7 Rpeq_round_8 Rpeq_round_9 Rpeq_round_10 Rpeq_round_11 Rpeq_round_12
      Rpeq_round_13 Rpeq_round_14 Rpeq_round_15 Rpeq_round_16 Rpeq_round_17 Rpeq_round_18
      Rpeq_round_19 Rpeq_round_20 Rpeq_round_21 Rpeq_round_22 Rpeq_round_23 Rpeq_round_24
      Rpeq_round_25 Rpeq_round_26 Rpeq_round_27 Rpeq_round_28 Rpeq_round_29 Rpeq_round_30
      Rpeq_round_31 Rpeq_round_32)
  have b: "calc_Rpeq ref_lib PyFloat (Fin (3602879701896397 / 9007199254740992)) (Fin (3602879701896397 / 18014398509481984)) (Fin (3602879701896397 / 36028797018963968)) 1 =
     Inr (Fin (3390945601784845 / 72057594037927936))"
    by (simp add: ebind_def calc_Rpeq_def kdiv_def kpow_int_def kpow_def ref_lib_def ref_py_pow_def int_valued_def odd_valued_def Let_def
      Rpeq_round_1 Rpeq_round_2 Rpeq_round_3 Rpeq_round_4 Rpeq_round_5 Rpeq_round_6
      Rpeq_round_7 Rpeq_round_8 Rpeq_round_9 Rpeq_round_10 Rpeq_round_11 Rpeq_round_12
      Rpeq_round_13 Rpeq_round_14 Rpeq_round_15 Rpeq_round_16 Rpeq_round_17 Rpeq_round_18
      Rpeq_round_19 Rpeq_round_20 Rpeq_round_21 Rpeq_round_22 Rpeq_round_23 Rpeq_round_24
      Rpeq_round_25 Rpeq_round_26 Rpeq_round_27 Rpeq_round_28 Rpeq_round_29 Rpeq_round_30
      Rpeq_round_31 Rpeq_round_32)
  show ?thesis unfolding a b by simp
qed

text \<open>
  Claim C10, amended. Whenever the two sums \<open>((1 + R45) + R46) + R47\<close> and
  \<open>((1 + R46) + R45) + R47\<close> are the same double, the equilibrium pair ratio is symmetric
  in its first two arguments: a call returns \<open>v\<close> exactly if the call with \<open>R45\<close> and \<open>R46\<close>
  exchanged returns \<open>v\<close>; hence one of them raises exactly if the other does. This holds
  for Python and for numpy floats and for every power function.
\<close>

theorem calc_Rpeq_symmetric:
  assumes "fadd (fadd (fadd (Fin 1) R45) R46) R47 = fadd (fadd (fadd (Fin 1) R46) R45) R47"
  shows "(calc_Rpeq lib kind R46 R45 R47 z = Inr v) = (calc_Rpeq lib kind R45 R46 R47 z = Inr v)"
proof -
  define s where "s = fadd (fadd (fadd (Fin 1) R45) R46) R47"
  have s': "fadd (fadd (fadd (Fin 1) R46) R45) R47 = s" using assms by (simp add: s_def)
  show ?thesis
  proof (cases "kdiv kind (Fin 1) s")
    case (Inl e)
    then show ?thesis by (simp add: calc_Rpeq_def ebind_def s' s_def[symmetric])
  next
    case (Inr f44)
    show ?thesis
    proof (cases "kpow_int lib kind (fsub (Fin 1) (fmul R45 f44)) z")
      case l: (Inl e)
      then show ?thesis
        using Inr
        by (auto simp: calc_Rpeq_def ebind_def s' s_def[symmetric] Let_def split: sum.splits)
    next
      case q45: (Inr q45)
      show ?thesis
      proof (cases "kpow_int lib kind (fsub (Fin 1) (fmul R46 f44)) z")
        case l: (Inl e)
        then show ?thesis
          using Inr q45 by (simp add: calc_Rpeq_def ebind_def s' s_def[symmetric] Let_def)
      next
        case q46: (Inr q46)
        have c: "fadd (fmul (fmul R45 f44) (fsub (Fin 1) q46)) (fmul (fmul R46 f44) (fsub (Fin 1) q45)) =
                 fadd (fmul (fmul R46 f44) (fsub (Fin 1) q45)) (fmul (fmul R45 f44) (fsub (Fin 1) q46))"
          by (rule fadd_commute)
        show ?thesis
          using Inr q45 q46
          by (simp add: calc_Rpeq_def ebind_def s' s_def[symmetric] Let_def c)
      qed
    qed
  qed
qed

text \<open>The roundings of \<^verbatim>\<open>_calc_Rpeq(1.0, 2.0, 1.0, 1)\<close> and of the sum \<open>1 + 2 + 1 + 1\<close>.\<close>

lemma Rpeq_wit_1: "fadd (Fin 1) (Fin 1) = Fin 2"
  by (rule fadd_cert[where k = "- 51" and m = 4503599627370496 and q = "1 / 2251799813685248"]) simp_all

lemma Rpeq_wit_2: "fadd (Fin 2) (Fin 2) = Fin 4"
  by (rule fadd_cert[where k = "- 50" and m = 4503599627370496 and q = "1 / 1125899906842624"]) simp_all

lemma Rpeq_wit_3: "fadd (Fin 4) (Fin 1) = Fin 5"
  by (rule fadd_cert[where k = "- 50" and m = 5629499534213120 and q = "1 / 1125899906842624"]) simp_all

lemma Rpeq_wit_4: "fdiv (Fin 1) (Fin 5) = Fin (3602879701896397 / 18014398509481984)"
  by (rule fdiv_cert[where k = "- 55" and m = 7205759403792794 and q = "1 / 36028797018963968"]) simp_all

lemma Rpeq_wit_5: "fmul (Fin 1) (Fin (3602879701896397 / 18014398509481984)) = Fin (3602879701896397 / 18014398509481984)"
  by (rule fmul_cert[where k = "- 55" and m = 7205759403792794 and q = "1 / 36028797018963968"]) simp_all

lemma Rpeq_wit_6: "fmul (Fin 2) (Fin (3602879701896397 / 18014398509481984)) = Fin (3602879701896397 / 9007199254740992)"
  by (rule fmul_cert[where k = "- 54" and m = 7205759403792794 and q = "1 / 18014398509481984"]) simp_all

lemma Rpeq_wit_7: "fsub (Fin 1) (Fin (3602879701896397 / 18014398509481984)) = Fin (3602879701896397 / 4503599627370496)"
  by (rule fsub_cert[where k = "- 53" and m = 7205759403792794 and q = "1 / 9007199254740992"]) simp_all

lemma Rpeq_wit_8: "fround s (3602879701896397 / 4503599627370496) = Fin (3602879701896397 / 4503599627370496)"
  by (rule fround_cert[where k = "- 53" and m = 7205759403792794 and q = "1 / 9007199254740992"]) simp_all

lemma Rpeq_wit_9: "fsub (Fin 1) (Fin (3602879701896397 / 9007199254740992)) = Fin (5404319552844595 / 9007199254740992)"
  by (rule fsub_cert[where k = "- 53" and m = 5404319552844595 and q = "1 / 9007199254740992"]) simp_all

lemma Rpeq_wit_10: "fround s (5404319552844595 / 9007199254740992) = Fin (5404319552844595 / 9007199254740992)"
  by (rule fround_cert[where k = "- 53" and m = 5404319552844595 and q = "1 / 9007199254740992"]) simp_all

lemma Rpeq_wit_11: "fsub (Fin 1) (Fin (3602879701896397 / 4503599627370496)) = Fin (900719925474099 / 4503599627370496)"
  by (rule fsub_cert[where k = "- 55" and m = 7205759403792792 and q = "1 / 36028797018963968"]) simp_all

lemma Rpeq_wit_12: "fmul (Fin (3602879701896397 / 9007199254740992)) (Fin (900719925474099 / 4503599627370496)) = Fin (2882303761517117 / 36028797018963968)"
  by (rule fmul_cert[where k = "- 56" and m = 5764607523034234 and q = "1 / 72057594037927936"]) simp_all

lemma Rpeq_wit_13: "fsub (Fin 1) (Fin (5404319552844595 / 9007199254740992)) = Fin (3602879701896397 / 9007199254740992)"
  by (rule fsub_cert[where k = "- 54" and m = 7205759403792794 and q = "1 / 18014398509481984"]) simp_all

lemma Rpeq_wit_14: "fmul (Fin (3602879701896397 / 18014398509481984)) (Fin (3602879701896397 / 9007199254740992)) = Fin (1441151880758559 / 18014398509481984)"
  by (rule fmul_cert[where k = "- 56" and m = 5764607523034236 and q = "1 / 72057594037927936"]) simp_all

lemma Rpeq_wit_15: "fadd (Fin (2882303761517117 / 36028797018963968)) (Fin (1441151880758559 / 18014398509481984)) = Fin (5764607523034235 / 36028797018963968)"
  by (rule fadd_cert[where k = "- 55" and m = 5764607523034235 and q = "1 / 36028797018963968"]) simp_all

lemma Rpeq_wit_16: "fdiv (Fin (5764607523034235 / 36028797018963968)) (Fin 2) = Fin (5764607523034235 / 72057594037927936)"
  by (rule fdiv_cert[where k = "- 56" and m = 5764607523034235 and q = "1 / 72057594037927936"]) simp_all

lemma Rpeq_wit_17: "fdiv (Fin (5764607523034235 / 72057594037927936)) (Fin (3602879701896397 / 18014398509481984)) = Fin (7205759403792793 / 18014398509481984)"
  by (rule fdiv_cert[where k = "- 54" and m = 7205759403792793 and q = "1 / 18014398509481984"]) simp_all

lemma Rpeq_wit_18: "fadd (Fin 1) (Fin 2) = Fin 3"
  by (rule fadd_cert[where k = "- 51" and m = 6755399441055744 and q = "1 / 2251799813685248"]) simp_all

lemma Rpeq_wit_19: "fadd (Fin 3) (Fin 1) = Fin 4"
  by (rule fadd_cert[where k = "- 50" and m = 4503599627370496 and q = "1 / 1125899906842624"]) simp_all

text \<open>The amended C10 at \<open>R45 = 1\<close>, \<open>R46 = 2\<close>, \<open>R47 = 1\<close>, \<open>z = 1\<close>, where both sums are \<open>5\<close>.\<close>

theorem calc_Rpeq_symmetric_witness:
  "calc_Rpeq ref_lib PyFloat (Fin 1) (Fin 2) (Fin 1) 1 = Inr (Fin (7205759403792793 / 18014398509481984)) \<and>
   calc_Rpeq ref_lib PyFloat (Fin 2) (Fin 1) (Fin 1) 1 = Inr (Fin (7205759403792793 / 18014398509481984))"
proof -
  have h: "fadd (fadd (fadd (Fin 1) (Fin 1)) (Fin 2)) (Fin 1) =
           fadd (fadd (fadd (Fin 1) (Fin 2)) (Fin 1)) (Fin 1)"
    by (simp add: Rpeq_wit_1 Rpeq_wit_2 Rpeq_wit_3 Rpeq_wit_4 Rpeq_wit_5 Rpeq_wit_6 Rpeq_wit_7 Rpeq_wit_8
      Rpeq_wit_9 Rpeq_wit_10 Rpeq_wit_11 Rpeq_wit_12 Rpeq_wit_13 Rpeq_wit_14 Rpeq_wit_15
      Rpeq_wit_16 Rpeq_wit_17 Rpeq_wit_18 Rpeq_wit_19)
  have a: "calc_Rpeq ref_lib PyFloat (Fin 1) (Fin 2) (Fin 1) 1 = Inr (Fin (7205759403792793 / 18014398509481984))"
    by (simp add: ebind_def calc_Rpeq_def kdiv_def kpow_int_def kpow_def ref_lib_def ref_py_pow_def int_valued_def odd_valued_def Let_def
      Rpeq_wit_1 Rpeq_wit_2 Rpeq_wit_3 Rpeq_wit_4 Rpeq_wit_5 Rpeq_wit_6 Rpeq_wit_7 Rpeq_wit_8
      Rpeq_wit_9 Rpeq_wit_10 Rpeq_wit_11 Rpeq_wit_12 Rpeq_wit_13 Rpeq_wit_14 Rpeq_wit_15
      Rpeq_wit_16 Rpeq_wit_17 Rpeq_wit_18 Rpeq_wit_19)
  from calc_Rpeq_symmetric[OF h, of ref_lib PyFloat 1 "Fin (7205759403792793 / 18014398509481984)"] a
  show ?thesis by simp
qed

section \<open>Properties of the paired-diffusion model\<close>

text \<open>
  With numpy floats nothing in \<^verbatim>\<open>_calc_R_stoch\<close> raises but the look-up of the name, and
  the rate system is defined as soon as the data have their three columns.
\<close>

lemma calc_R_stoch_numpy_defined:
  assumes "d47_isoparams name = Some ip"
  shows "\<exists>R. calc_R_stoch lib NpFloat64 d47_isoparams d13C d18O name = Inr R"
proof -
  obtain a b c d where ip: "ip = (a, b, c, d)" by (cases ip) auto
  show ?thesis
    using assms
    by (simp add: calc_R_stoch_def stoch_fractions_def ip kdiv_def kpow_def ebind_def Let_def)
qed

lemma SE15_system_defined:
  assumes "d47_isoparams (iso_params he) = Some ip" "3 \<le> dex_ncol he"
  shows "\<exists>A B Dpp0. SE15_system lib d47_isoparams lnk1f lnkds lnp0peq D0 Deq Dppeq he =
           Inr (A, B, (fadd (fdiv D0 (Fin 1000)) (Fin 1), Dpp0))"
proof -
  obtain c13 where c1: "dex_col he 1 = Inr c13"
    using assms(2) by (simp add: dex_col_def py_index_def ebind_def)
  obtain c18 where c2: "dex_col he 2 = Inr c18"
    using assms(2) by (simp add: dex_col_def py_index_def ebind_def)
  obtain R where R: "calc_R_stoch lib NpFloat64 d47_isoparams
      (np_mean lib c13) (np_mean lib c18) (iso_params he) = Inr R"
    using calc_R_stoch_numpy_defined[where d47_isoparams = d47_isoparams
        and name = "iso_params he", OF assms(1)] by blast
  obtain r5 r6 r7 where r: "R = (r5, r6, r7)" by (cases R) auto
  show ?thesis
    by (simp add: SE15_system_def c1 c2 ebind_def Let_def R r)
qed

lemma SE15_system_initial:
  assumes "SE15_system lib d47_isoparams lnk1f lnkds lnp0peq D0 Deq Dppeq he = Inr (A, B, x0)"
  shows "fst x0 = fadd (fdiv D0 (Fin 1000)) (Fin 1)"
  using assms
  by (auto simp: SE15_system_def ebind_def Let_def split: sum.splits prod.splits)

text \<open>
  The loop from index \<open>k\<close> on, when every inversion succeeds: it appends the step matrices
  to the log, keeps the states up to \<open>k\<close>, and every later state is the implicit update of
  the state before it.
\<close>

lemma backward_Euler_steps:
  assumes "\<forall>i. k \<le> i \<and> i < n \<longrightarrow>
             np_inv lib (step_matrix A (fsub (t ! (i + 1)) (t ! i))) = Inr (Ai ! i)"
    and "n < length x" "k \<le> n"
  shows "\<exists>x'. backward_Euler lib A B t [k ..< n] (x, inverted) =
                Inr (x', inverted @ map (\<lambda>i. step_matrix A (fsub (t ! (i + 1)) (t ! i))) [k ..< n]) \<and>
              length x' = length x \<and> (\<forall>j \<le> k. x' ! j = x ! j) \<and>
              (\<forall>i. k \<le> i \<and> i < n \<longrightarrow>
                 x' ! (i + 1) =
                   np_matvec lib (Ai ! i) (step_rhs (x' ! i) (fsub (t ! (i + 1)) (t ! i)) B))"
  using assms
proof (induction "n - k" arbitrary: k x inverted)
  case 0
  then have kn: "k = n" by simp
  show ?case unfolding kn by auto
next
  case (Suc d)
  then have kn: "k < n" by simp
  define M where "M = step_matrix A (fsub (t ! (k + 1)) (t ! k))"
  define v where "v = np_matvec lib (Ai ! k) (step_rhs (x ! k) (fsub (t ! (k + 1)) (t ! k)) B)"
  have inv: "np_inv lib M = Inr (Ai ! k)" using Suc.prems(1) kn by (simp add: M_def)
  have upt: "[k ..< n] = k # [Suc k ..< n]" using kn by (simp add: upt_conv_Cons)
  have d: "d = n - Suc k" using Suc.hyps(2) by simp
  have p1: "\<forall>i. Suc k \<le> i \<and> i < n \<longrightarrow>
             np_inv lib (step_matrix A (fsub (t ! (i + 1)) (t ! i))) = Inr (Ai ! i)"
    using Suc.prems(1) by simp
  have p2: "n < length (x[k + 1 := v])" using Suc.prems(2) by simp
  have p3: "Suc k \<le> n" using kn by simp
  from Suc.hyps(1)[OF d p1 p2 p3, of "inverted @ [M]"]
  obtain x' where x':
    "backward_Euler lib A B t [Suc k ..< n] (x[k + 1 := v], inverted @ [M]) =
       Inr (x', (inverted @ [M]) @ map (\<lambda>i. step_matrix A (fsub (t ! (i + 1)) (t ! i))) [Suc k ..< n])"
    "length x' = length (x[k + 1 := v])"
    "\<forall>j \<le> Suc k. x' ! j = x[k + 1 := v] ! j"
    "\<forall>i. Suc k \<le> i \<and> i < n \<longrightarrow>
       x' ! (i + 1) = np_matvec lib (Ai ! i) (step_rhs (x' ! i) (fsub (t ! (i + 1)) (t ! i)) B)"
    by blast
  have run: "backward_Euler lib A B t [k ..< n] (x, inverted) =
      Inr (x', inverted @ map (\<lambda>i. step_matrix A (fsub (t ! (i + 1)) (t ! i))) [k ..< n])"
  proof -
    have "backward_Euler lib A B t (k # [Suc k ..< n]) (x, inverted) =
          backward_Euler lib A B t [Suc k ..< n] (x[k + 1 := v], inverted @ [M])"
      using inv unfolding M_def v_def by (simp add: Let_def)
    then show ?thesis unfolding upt x'(1) by (simp add: M_def)
  qed
  have len: "length x' = length x" using x'(2) by simp
  have keep: "\<forall>j \<le> k. x' ! j = x ! j"
  proof (intro allI impI)
    fix j assume "j \<le> k"
    then have "x' ! j = x[k + 1 := v] ! j" using x'(3) by simp
    also have "\<dots> = x ! j" using \<open>j \<le> k\<close> by simp
    finally show "x' ! j = x ! j" .
  qed
  have xk: "x' ! k = x ! k" using keep by simp
  have xk1: "x' ! (k + 1) = v"
  proof -
    have "x' ! (k + 1) = x[k + 1 := v] ! (k + 1)" using x'(3) by simp
    also have "\<dots> = v" using Suc.prems(2) kn by simp
    finally show ?thesis .
  qed
  have upd: "\<forall>i. k \<le> i \<and> i < n \<longrightarrow>
       x' ! (i + 1) = np_matvec lib (Ai ! i) (step_rhs (x' ! i) (fsub (t ! (i + 1)) (t ! i)) B)"
  proof (intro allI impI)
    fix i assume i: "k \<le> i \<and> i < n"
    show "x' ! (i + 1) = np_matvec lib (Ai ! i) (step_rhs (x' ! i) (fsub (t ! (i + 1)) (t ! i)) B)"
    proof (cases "i = k")
      case True
      then show ?thesis using xk1 xk by (simp add: v_def)
    next
      case False
      then have "Suc k \<le> i \<and> i < n" using i by simp
      then show ?thesis using x'(4) by blast
    qed
  qed
  show ?case using run len keep upd by blast
qed

text \<open>A call with a single time point, for a registered name and data of three columns.\<close>

lemma fSE15_single_point:
  assumes "d47_isoparams (iso_params he) = Some ip" "3 \<le> dex_ncol he"
  shows "fSE15 lib d47_isoparams [ti] lnk1f lnkds lnp0peq D0 Deq Dppeq he =
           Inr [fmul (Fin 1000) (fsub (fadd (fdiv D0 (Fin 1000)) (Fin 1)) (Fin 1))]"
proof -
  from SE15_system_defined[where d47_isoparams = d47_isoparams and he = he, OF assms]
  obtain A B Dpp0 where
    "SE15_system lib d47_isoparams lnk1f lnkds lnp0peq D0 Deq Dppeq he =
       Inr (A, B, (fadd (fdiv D0 (Fin 1000)) (Fin 1), Dpp0))"
    by blast
  then show ?thesis
    by (simp add: fSE15_def fSE15_run_def ebind_def Let_def)
qed

lemma fSE15_no_time_point:
  assumes "d47_isoparams (iso_params he) = Some ip" "3 \<le> dex_ncol he"
  shows "fSE15 lib d47_isoparams [] lnk1f lnkds lnp0peq D0 Deq Dppeq he = Inl IndexError"
proof -
  from SE15_system_defined[where d47_isoparams = d47_isoparams and he = he, OF assms]
  obtain A B Dpp0 where
    "SE15_system lib d47_isoparams lnk1f lnkds lnp0peq D0 Deq Dppeq he =
       Inr (A, B, (fadd (fdiv D0 (Fin 1000)) (Fin 1), Dpp0))"
    by blast
  then show ?thesis
    by (simp add: fSE15_def fSE15_run_def ebind_def Let_def)
qed

text \<open>
  The sample data: the means of the two columns are \<open>2\<close> and \<open>0\<close>, and the stochastic
  ratios follow, rounding by rounding.
\<close>

lemma SE15_mean_1: "fadd NZero (Fin (3 / 2)) = Fin (3 / 2)"
proof -
  have "fround s (3 / 2) = Fin (3 / 2)" for s
    by (rule fround_cert[where k = "- 52" and m = 6755399441055744 and q = "1 / 4503599627370496"]) simp_all
  then show ?thesis by (simp add: fadd_def fsub_def fmul_def fdiv_def fzero_def finf_def)
qed

lemma SE15_mean_2: "fadd (Fin (3 / 2)) (Fin (5 / 2)) = Fin 4"
  by (rule fadd_cert[where k = "- 50" and m = 4503599627370496 and q = "1 / 1125899906842624"]) simp_all

lemma SE15_mean_3: "fdiv (Fin 4) (Fin 2) = Fin 2"
  by (rule fdiv_cert[where k = "- 51" and m = 4503599627370496 and q = "1 / 2251799813685248"]) simp_all

lemma SE15_mean_4: "fadd NZero (Fin 1) = Fin 1"
proof -
  have "fround s 1 = Fin 1" for s
    by (rule fround_cert[where k = "- 52" and m = 4503599627370496 and q = "1 / 4503599627370496"]) simp_all
  then show ?thesis by (simp add: fadd_def fsub_def fmul_def fdiv_def fzero_def finf_def)
qed

lemma SE15_mean_5: "fadd (Fin 1) (Fin (- 1)) = Fin 0"
  by (simp add: fadd_def fsub_def fmul_def fdiv_def fzero_def finf_def)

lemma SE15_mean_6: "fdiv (Fin 0) (Fin 2) = Fin 0"
  by (simp add: fadd_def fsub_def fmul_def fdiv_def fzero_def finf_def)

lemma SE15_stoch_1: "fdiv (Fin 2) (Fin 1000) = Fin (1152921504606847 / 576460752303423488)"
  by (rule fdiv_cert[where k = "- 61" and m = 4611686018427388 and q = "1 / 2305843009213693952"]) simp_all

lemma SE15_stoch_2: "fadd (Fin (1152921504606847 / 576460752303423488)) (Fin 1) = Fin (4512606826625237 / 4503599627370496)"
  by (rule fadd_cert[where k = "- 52" and m = 4512606826625237 and q = "1 / 4503599627370496"]) simp_all

lemma SE15_stoch_3: "fmul (Fin (4512606826625237 / 4503599627370496)) (Fin (6444831210752275 / 576460752303423488)) = Fin (1614430218293445 / 144115188075855872)"
  by (rule fmul_cert[where k = "- 59" and m = 6457720873173780 and q = "1 / 576460752303423488"]) simp_all

lemma SE15_stoch_4: "fdiv (Fin 0) (Fin 1000) = Fin 0"
  by (simp add: fadd_def fsub_def fmul_def fdiv_def fzero_def finf_def)

lemma SE15_stoch_5: "fadd (Fin 0) (Fin 1) = Fin 1"
  by (rule fadd_cert[where k = "- 52" and m = 4503599627370496 and q = "1 / 4503599627370496"]) simp_all

lemma SE15_stoch_6: "fmul (Fin 1) (Fin (4623676402075299 / 2305843009213693952)) = Fin (4623676402075299 / 2305843009213693952)"
  by (rule fmul_cert[where k = "- 61" and m = 4623676402075299 and q = "1 / 2305843009213693952"]) simp_all

lemma SE15_stoch_7: "fdiv (Fin (4623676402075299 / 2305843009213693952)) (Fin (4623676402075299 / 2305843009213693952)) = Fin 1"
  by (rule fdiv_cert[where k = "- 52" and m = 4503599627370496 and q = "1 / 4503599627370496"]) simp_all

lemma SE15_stoch_8: "fmul (Fin (3548692391179875 / 9223372036854775808)) (Fin 1) = Fin (3548692391179875 / 9223372036854775808)"
  by (rule fmul_cert[where k = "- 64" and m = 7097384782359750 and q = "1 / 18446744073709551616"]) simp_all

lemma SE15_stoch_9: "fadd (Fin 1) (Fin (1614430218293445 / 144115188075855872)) = Fin (2277025285846083 / 2251799813685248)"
  by (rule fadd_cert[where k = "- 52" and m = 4554050571692166 and q = "1 / 4503599627370496"]) simp_all

lemma SE15_stoch_10: "fdiv (Fin 1) (Fin (2277025285846083 / 2251799813685248)) = Fin (4453707591594719 / 4503599627370496)"
  by (rule fdiv_cert[where k = "- 53" and m = 8907415183189438 and q = "1 / 9007199254740992"]) simp_all

lemma SE15_stoch_11: "fmul (Fin (1614430218293445 / 144115188075855872)) (Fin (4453707591594719 / 4503599627370496)) = Fin (6386180579299459 / 576460752303423488)"
  by (rule fmul_cert[where k = "- 59" and m = 6386180579299459 and q = "1 / 576460752303423488"]) simp_all

lemma SE15_stoch_12: "fadd (Fin 1) (Fin (3548692391179875 / 9223372036854775808)) = Fin (4505332387327127 / 4503599627370496)"
  by (rule fadd_cert[where k = "- 52" and m = 4505332387327127 and q = "1 / 4503599627370496"]) simp_all

lemma SE15_stoch_13: "fadd (Fin (4505332387327127 / 4503599627370496)) (Fin (4623676402075299 / 2305843009213693952)) = Fin (2257181502649965 / 2251799813685248)"
  by (rule fadd_cert[where k = "- 52" and m = 4514363005299930 and q = "1 / 4503599627370496"]) simp_all

lemma SE15_stoch_14: "fdiv (Fin 1) (Fin (2257181502649965 / 2251799813685248)) = Fin (4492861912043807 / 4503599627370496)"
  by (rule fdiv_cert[where k = "- 53" and m = 8985723824087614 and q = "1 / 9007199254740992"]) simp_all

lemma SE15_stoch_15: "fmul (Fin (3548692391179875 / 9223372036854775808)) (Fin (4492861912043807 / 4503599627370496)) = Fin (7080462830218669 / 18446744073709551616)"
  by (rule fmul_cert[where k = "- 64" and m = 7080462830218669 and q = "1 / 18446744073709551616"]) simp_all

lemma SE15_stoch_16: "fmul (Fin (4623676402075299 / 2305843009213693952)) (Fin (4492861912043807 / 4503599627370496)) = Fin (1153163098371871 / 576460752303423488)"
  by (rule fmul_cert[where k = "- 61" and m = 4612652393487484 and q = "1 / 2305843009213693952"]) simp_all

lemma SE15_stoch_17: "fmul (Fin (4453707591594719 / 4503599627370496)) (Fin (4492861912043807 / 4503599627370496)) = Fin (8886177662884029 / 9007199254740992)"
  by (rule fmul_cert[where k = "- 53" and m = 8886177662884029 and q = "1 / 9007199254740992"]) simp_all

lemma SE15_stoch_18: "fmul (Fin (8886177662884029 / 9007199254740992)) (Fin (4492861912043807 / 4503599627370496)) = Fin (8864990778173733 / 9007199254740992)"
  by (rule fmul_cert[where k = "- 53" and m = 8864990778173733 and q = "1 / 9007199254740992"]) simp_all

lemma SE15_stoch_19: "fmul (Fin (6386180579299459 / 576460752303423488)) (Fin (4492861912043807 / 4503599627370496)) = Fin (6370954317029475 / 576460752303423488)"
  by (rule fmul_cert[where k = "- 59" and m = 6370954317029475 and q = "1 / 576460752303423488"]) simp_all

lemma SE15_stoch_20: "fmul (Fin (6370954317029475 / 576460752303423488)) (Fin (4492861912043807 / 4503599627370496)) = Fin (1588941089500517 / 144115188075855872)"
  by (rule fmul_cert[where k = "- 59" and m = 6355764358002068 and q = "1 / 576460752303423488"]) simp_all

lemma SE15_stoch_21: "fmul (Fin 2) (Fin (4453707591594719 / 4503599627370496)) = Fin (4453707591594719 / 2251799813685248)"
  by (rule fmul_cert[where k = "- 52" and m = 8907415183189438 and q = "1 / 4503599627370496"]) simp_all

lemma SE15_stoch_22: "fmul (Fin (4453707591594719 / 2251799813685248)) (Fin (7080462830218669 / 18446744073709551616)) = Fin (3501011820333701 / 4611686018427387904)"
  by (rule fmul_cert[where k = "- 63" and m = 7002023640667402 and q = "1 / 9223372036854775808"]) simp_all

lemma SE15_stoch_23: "fmul (Fin (3501011820333701 / 4611686018427387904)) (Fin (4492861912043807 / 4503599627370496)) = Fin (6985329053495999 / 9223372036854775808)"
  by (rule fmul_cert[where k = "- 63" and m = 6985329053495999 and q = "1 / 9223372036854775808"]) simp_all

lemma SE15_stoch_24: "fadd (Fin (1588941089500517 / 144115188075855872)) (Fin (6985329053495999 / 9223372036854775808)) = Fin (106130428497587 / 9007199254740992)"
  by (rule fadd_cert[where k = "- 59" and m = 6792347423845568 and q = "1 / 576460752303423488"]) simp_all

lemma SE15_stoch_25: "fmul (Fin (4453707591594719 / 2251799813685248)) (Fin (4492861912043807 / 4503599627370496)) = Fin (8886177662884029 / 4503599627370496)"
  by (rule fmul_cert[where k = "- 52" and m = 8886177662884029 and q = "1 / 4503599627370496"]) simp_all

lemma SE15_stoch_26: "fmul (Fin (8886177662884029 / 4503599627370496)) (Fin (1153163098371871 / 576460752303423488)) = Fin (568834544268607 / 144115188075855872)"
  by (rule fmul_cert[where k = "- 60" and m = 4550676354148856 and q = "1 / 1152921504606846976"]) simp_all

lemma SE15_stoch_27: "fmul (Fin 2) (Fin (6386180579299459 / 576460752303423488)) = Fin (6386180579299459 / 288230376151711744)"
  by (rule fmul_cert[where k = "- 58" and m = 6386180579299459 and q = "1 / 288230376151711744"]) simp_all

lemma SE15_stoch_28: "fmul (Fin (6386180579299459 / 288230376151711744)) (Fin (7080462830218669 / 18446744073709551616)) = Fin (5020108131281081 / 590295810358705651712)"
  by (rule fmul_cert[where k = "- 69" and m = 5020108131281081 and q = "1 / 590295810358705651712"]) simp_all

lemma SE15_stoch_29: "fmul (Fin (5020108131281081 / 590295810358705651712)) (Fin (4492861912043807 / 4503599627370496)) = Fin (5008138929646173 / 590295810358705651712)"
  by (rule fmul_cert[where k = "- 69" and m = 5008138929646173 and q = "1 / 590295810358705651712"]) simp_all

lemma SE15_stoch_30: "fadd (Fin (568834544268607 / 144115188075855872)) (Fin (5008138929646173 / 590295810358705651712)) = Fin (4560457875495821 / 1152921504606846976)"
  by (rule fadd_cert[where k = "- 60" and m = 4560457875495821 and q = "1 / 1152921504606846976"]) simp_all

lemma SE15_stoch_31: "fmul (Fin (4453707591594719 / 4503599627370496)) (Fin (7080462830218669 / 18446744073709551616)) = Fin (3501011820333701 / 9223372036854775808)"
  by (rule fmul_cert[where k = "- 64" and m = 7002023640667402 and q = "1 / 18446744073709551616"]) simp_all

lemma SE15_stoch_32: "fmul (Fin (3501011820333701 / 9223372036854775808)) (Fin (7080462830218669 / 18446744073709551616)) = Fin (344013485226571 / 2361183241434822606848)"
  by (rule fmul_cert[where k = "- 75" and m = 5504215763625136 and q = "1 / 37778931862957161709568"]) simp_all

lemma SE15_stoch_33: "fadd (Fin (4560457875495821 / 1152921504606846976)) (Fin (344013485226571 / 2361183241434822606848)) = Fin (1140156462707601 / 288230376151711744)"
  by (rule fadd_cert[where k = "- 60" and m = 4560625850830404 and q = "1 / 1152921504606846976"]) simp_all

lemma SE15_stoch_34: "fmul (Fin (6386180579299459 / 288230376151711744)) (Fin (4492861912043807 / 4503599627370496)) = Fin (6370954317029475 / 288230376151711744)"
  by (rule fmul_cert[where k = "- 58" and m = 6370954317029475 and q = "1 / 288230376151711744"]) simp_all

lemma SE15_stoch_35: "fmul (Fin (6370954317029475 / 288230376151711744)) (Fin (1153163098371871 / 576460752303423488)) = Fin (6525224289620863 / 147573952589676412928)"
  by (rule fmul_cert[where k = "- 67" and m = 6525224289620863 and q = "1 / 147573952589676412928"]) simp_all

lemma SE15_stoch_36: "fmul (Fin (3501011820333701 / 4611686018427387904)) (Fin (1153163098371871 / 576460752303423488)) = Fin (7171574690851931 / 4722366482869645213696)"
  by (rule fmul_cert[where k = "- 72" and m = 7171574690851931 and q = "1 / 4722366482869645213696"]) simp_all

lemma SE15_stoch_37: "fadd (Fin (6525224289620863 / 147573952589676412928)) (Fin (7171574690851931 / 4722366482869645213696)) = Fin (3374667999354993 / 73786976294838206464)"
  by (rule fadd_cert[where k = "- 67" and m = 6749335998709986 and q = "1 / 147573952589676412928"]) simp_all

lemma SE15_stoch_38: "fmul (Fin (6386180579299459 / 576460752303423488)) (Fin (7080462830218669 / 18446744073709551616)) = Fin (5020108131281081 / 1180591620717411303424)"
  by (rule fmul_cert[where k = "- 70" and m = 5020108131281081 and q = "1 / 1180591620717411303424"]) simp_all

lemma SE15_stoch_39: "fmul (Fin (5020108131281081 / 1180591620717411303424)) (Fin (7080462830218669 / 18446744073709551616)) = Fin (986563304028859 / 604462909807314587353088)"
  by (rule fmul_cert[where k = "- 82" and m = 7892506432230872 and q = "1 / 4835703278458516698824704"]) simp_all

lemma SE15_stoch_40: "fadd (Fin (3374667999354993 / 73786976294838206464)) (Fin (986563304028859 / 604462909807314587353088)) = Fin (3374788429445817 / 73786976294838206464)"
  by (rule fadd_cert[where k = "- 67" and m = 6749576858891634 and q = "1 / 147573952589676412928"]) simp_all

lemma SE15_stoch_41: "fdiv (Fin (106130428497587 / 9007199254740992)) (Fin (8864990778173733 / 9007199254740992)) = Fin (215665856939727 / 18014398509481984)"
  by (rule fdiv_cert[where k = "- 59" and m = 6901307422071264 and q = "1 / 576460752303423488"]) simp_all

lemma SE15_stoch_42: "fdiv (Fin (1140156462707601 / 288230376151711744)) (Fin (8864990778173733 / 9007199254740992)) = Fin (4633785504423801 / 1152921504606846976)"
  by (rule fdiv_cert[where k = "- 60" and m = 4633785504423801 and q = "1 / 1152921504606846976"]) simp_all

lemma SE15_stoch_43: "fdiv (Fin (3374788429445817 / 73786976294838206464)) (Fin (8864990778173733 / 9007199254740992)) = Fin (3428925374796049 / 73786976294838206464)"
  by (rule fdiv_cert[where k = "- 67" and m = 6857850749592098 and q = "1 / 147573952589676412928"]) simp_all

lemma sample_registered:
  "sample_isoparams (iso_params sample_experiment) =
     Some (Fin (6444831210752275 / 576460752303423488),
           Fin (4623676402075299 / 2305843009213693952),
           Fin (3548692391179875 / 9223372036854775808),
           Fin (1188950301625811 / 2251799813685248))"
  by (simp add: sample_isoparams_def sample_experiment_def)

lemma sample_columns: "3 \<le> dex_ncol sample_experiment"
  by (simp add: sample_experiment_def)

lemma ref_lib_sel:
  "np_exp ref_lib = ref_exp" "np_power ref_lib = ref_power" "py_pow ref_lib = ref_py_pow"
  "np_mean ref_lib = ref_mean" "np_inv ref_lib = ref_inv" "np_matvec ref_lib = ref_matvec"
  by (simp_all add: ref_lib_def)

lemma ref_power_one: "ref_power (Fin 1) y = Fin 1"
  by (simp add: ref_power_def)

lemma sample_R_stoch:
  "calc_R_stoch ref_lib NpFloat64 sample_isoparams (Fin 2) (Fin 0) ''Brand'' =
     Inr (Fin (215665856939727 / 18014398509481984),
          Fin (4633785504423801 / 1152921504606846976),
          Fin (3428925374796049 / 73786976294838206464))"
  by (simp add: ebind_def calc_R_stoch_def stoch_fractions_def sample_isoparams_def kdiv_def
      kpow_def ref_lib_sel ref_power_one Let_def
      SE15_stoch_1 SE15_stoch_2 SE15_stoch_3 SE15_stoch_4 SE15_stoch_5 SE15_stoch_6
      SE15_stoch_7 SE15_stoch_8 SE15_stoch_9 SE15_stoch_10 SE15_stoch_11 SE15_stoch_12
      SE15_stoch_13 SE15_stoch_14 SE15_stoch_15 SE15_stoch_16 SE15_stoch_17 SE15_stoch_18
      SE15_stoch_19 SE15_stoch_20 SE15_stoch_21 SE15_stoch_22 SE15_stoch_23 SE15_stoch_24
      SE15_stoch_25 SE15_stoch_26 SE15_stoch_27 SE15_stoch_28 SE15_stoch_29 SE15_stoch_30
      SE15_stoch_31 SE15_stoch_32 SE15_stoch_33 SE15_stoch_34 SE15_stoch_35 SE15_stoch_36
      SE15_stoch_37 SE15_stoch_38 SE15_stoch_39 SE15_stoch_40 SE15_stoch_41 SE15_stoch_42
      SE15_stoch_43)

lemma sample_means:
  "ref_mean [Fin (3 / 2), Fin (5 / 2)] = Fin 2"
  "ref_mean [Fin 1, Fin (- 1)] = Fin 0"
  by (simp_all add: ref_mean_def SE15_mean_1 SE15_mean_2 SE15_mean_3 SE15_mean_4 SE15_mean_5 SE15_mean_6)

text \<open>The roundings of \<open>1000 * ((0.6 / 1000 + 1) - 1)\<close>.\<close>

lemma SE15_roundtrip_1: "fdiv (Fin (5404319552844595 / 9007199254740992)) (Fin 1000) = Fin (5534023222112865 / 9223372036854775808)"
  by (rule fdiv_cert[where k = "- 63" and m = 5534023222112865 and q = "1 / 9223372036854775808"]) simp_all

lemma SE15_roundtrip_2: "fadd (Fin (5534023222112865 / 9223372036854775808)) (Fin 1) = Fin (2253150893573459 / 2251799813685248)"
  by (rule fadd_cert[where k = "- 52" and m = 4506301787146918 and q = "1 / 4503599627370496"]) simp_all

lemma SE15_roundtrip_3: "fsub (Fin (2253150893573459 / 2251799813685248)) (Fin 1) = Fin (1351079888211 / 2251799813685248)"
  by (rule fsub_cert[where k = "- 63" and m = 5534023222112256 and q = "1 / 9223372036854775808"]) simp_all

lemma SE15_roundtrip_4: "fmul (Fin 1000) (Fin (1351079888211 / 2251799813685248)) = Fin (168884986026375 / 281474976710656)"
  by (rule fmul_cert[where k = "- 53" and m = 5404319552844000 and q = "1 / 9007199254740992"]) simp_all

text \<open>
  The rate system for \<open>lnk1f = lnkds = lnp0peq = 0\<close>, \<open>D0 = 0.6\<close>, \<open>Deq = -1000\<close> and
  \<open>Dppeq = 1\<close>, its step matrix for the time points \<open>[0, -1]\<close>, and the elimination.
\<close>

lemma SE15_sing_1: "fmul (Fin 1) (Fin (3428925374796049 / 73786976294838206464)) = Fin (3428925374796049 / 73786976294838206464)"
  by (rule fmul_cert[where k = "- 67" and m = 6857850749592098 and q = "1 / 147573952589676412928"]) simp_all

lemma SE15_sing_2: "fsub (Fin (215665856939727 / 18014398509481984)) (Fin (3428925374796049 / 73786976294838206464)) = Fin (3437259471290335 / 288230376151711744)"
  by (rule fsub_cert[where k = "- 59" and m = 6874518942580670 and q = "1 / 576460752303423488"]) simp_all

lemma SE15_sing_3: "fsub (Fin (4633785504423801 / 1152921504606846976)) (Fin (3428925374796049 / 73786976294838206464)) = Fin (4580208545442613 / 1152921504606846976)"
  by (rule fsub_cert[where k = "- 60" and m = 4580208545442613 and q = "1 / 1152921504606846976"]) simp_all

lemma SE15_sing_4: "fmul (Fin (3437259471290335 / 288230376151711744)) (Fin (4580208545442613 / 1152921504606846976)) = Fin (1747864653379455 / 36893488147419103232)"
  by (rule fmul_cert[where k = "- 67" and m = 6991458613517820 and q = "1 / 147573952589676412928"]) simp_all

lemma SE15_sing_5: "fmul (Fin 1) (Fin (1747864653379455 / 36893488147419103232)) = Fin (1747864653379455 / 36893488147419103232)"
  by (rule fmul_cert[where k = "- 67" and m = 6991458613517820 and q = "1 / 147573952589676412928"]) simp_all

lemma SE15_sing_6: "fdiv (Fin (1747864653379455 / 36893488147419103232)) (Fin (3428925374796049 / 73786976294838206464)) = Fin (4591340867033001 / 4503599627370496)"
  by (rule fdiv_cert[where k = "- 52" and m = 4591340867033001 and q = "1 / 4503599627370496"]) simp_all

lemma SE15_sing_7: "fmul (Fin 1) (Fin 1) = Fin 1"
  by (rule fmul_cert[where k = "- 52" and m = 4503599627370496 and q = "1 / 4503599627370496"]) simp_all

lemma SE15_sing_8: "fdiv (Fin (- 1000)) (Fin 1000) = Fin (- 1)"
  by (rule fdiv_cert[where k = "- 52" and m = "- 4503599627370496" and q = "1 / 4503599627370496"]) simp_all

lemma SE15_sing_9: "fadd (Fin (- 1)) (Fin 1) = Fin 0"
  by (simp add: fadd_def fsub_def fmul_def fdiv_def fzero_def finf_def)

lemma SE15_sing_10: "fmul (Fin 1) (Fin 0) = Fin 0"
  by (simp add: fadd_def fsub_def fmul_def fdiv_def fzero_def finf_def)

lemma SE15_sing_11: "fdiv (Fin 0) (Fin 1) = Fin 0"
  by (simp add: fadd_def fsub_def fmul_def fdiv_def fzero_def finf_def)

lemma SE15_sing_12: "fmul (Fin (4591340867033001 / 4503599627370496)) (Fin 1) = Fin (4591340867033001 / 4503599627370496)"
  by (rule fmul_cert[where k = "- 52" and m = 4591340867033001 and q = "1 / 4503599627370496"]) simp_all

lemma SE15_sing_13: "fadd (Fin 0) (Fin (4591340867033001 / 4503599627370496)) = Fin (4591340867033001 / 4503599627370496)"
  by (rule fadd_cert[where k = "- 52" and m = 4591340867033001 and q = "1 / 4503599627370496"]) simp_all

lemma SE15_sing_14: "fsub (Fin (- 1)) (Fin 0) = Fin (- 1)"
  by (rule fsub_cert[where k = "- 52" and m = "- 4503599627370496" and q = "1 / 4503599627370496"]) simp_all

lemma SE15_sing_15: "fmul (Fin (- 1)) (Fin (- 1)) = Fin 1"
  by (rule fmul_cert[where k = "- 52" and m = 4503599627370496 and q = "1 / 4503599627370496"]) simp_all

lemma SE15_sing_16: "fsub (Fin 1) (Fin 1) = Fin 0"
  by (simp add: fadd_def fsub_def fmul_def fdiv_def fzero_def finf_def)

lemma SE15_sing_17: "fmul (Fin (- 1)) (Fin 0) = NZero"
  by (simp add: fadd_def fsub_def fmul_def fdiv_def fzero_def finf_def)

lemma SE15_sing_18: "fsub (Fin 0) NZero = Fin 0"
  by (simp add: fadd_def fsub_def fmul_def fdiv_def fzero_def finf_def)

lemma SE15_sing_19: "fmul (Fin (- 1)) (Fin 1) = Fin (- 1)"
  by (rule fmul_cert[where k = "- 52" and m = "- 4503599627370496" and q = "1 / 4503599627370496"]) simp_all

lemma SE15_sing_20: "fsub (Fin 0) (Fin (- 1)) = Fin 1"
  by (rule fsub_cert[where k = "- 52" and m = 4503599627370496 and q = "1 / 4503599627370496"]) simp_all

lemma SE15_sing_21: "fmul (Fin (- 1)) (Fin (- (4591340867033001 / 4503599627370496))) = Fin (4591340867033001 / 4503599627370496)"
  by (rule fmul_cert[where k = "- 52" and m = 4591340867033001 and q = "1 / 4503599627370496"]) simp_all

lemma SE15_sing_22: "fsub (Fin 1) (Fin (4591340867033001 / 4503599627370496)) = Fin (- (87741239662505 / 4503599627370496))"
  by (rule fsub_cert[where k = "- 58" and m = "- 5615439338400320" and q = "1 / 288230376151711744"]) simp_all

lemma SE15_sing_23: "fmul (Fin 0) (Fin (- (87741239662505 / 4503599627370496))) = NZero"
  by (simp add: fadd_def fsub_def fmul_def fdiv_def fzero_def finf_def)

lemma sample_singular_system:
  "SE15_system ref_lib sample_isoparams (Fin 0) (Fin 0) (Fin 0) (Fin (5404319552844595 / 9007199254740992)) (Fin (- 1000)) (Fin 1)
     sample_experiment =
     Inr (((Fin (- 1), Fin 0), (Fin 1, Fin (- (4591340867033001 / 4503599627370496)))),
          (Fin 0, Fin (4591340867033001 / 4503599627370496)),
          (Fin (2253150893573459 / 2251799813685248), Fin 1))"
  by (simp add: ebind_def SE15_system_def dex_col_def py_index_def sample_experiment_def ref_lib_sel Let_def sample_means sample_R_stoch
      SE15_sing_1 SE15_sing_2 SE15_sing_3 SE15_sing_4 SE15_sing_5 SE15_sing_6 SE15_sing_7
      SE15_roundtrip_1 SE15_roundtrip_2 SE15_sing_8 SE15_sing_9 SE15_sing_10 SE15_sing_11
      SE15_sing_12 SE15_sing_13)

lemma sample_singular_inv:
  "ref_inv (step_matrix ((Fin (- 1), Fin 0), (Fin 1, Fin (- (4591340867033001 / 4503599627370496))))
      (fsub (Fin (- 1)) (Fin 0))) = Inl LinAlgError"
  by (simp add: step_matrix_def ref_inv_def mag_gt_def Let_def
      SE15_sing_14 SE15_sing_15 SE15_sing_16 SE15_sing_17 SE15_sing_18 SE15_sing_19
      SE15_sing_20 SE15_sing_21 SE15_sing_22 SE15_sing_11 SE15_sing_23 SE15_sing_18)

text \<open>
  Claim C5 as stated fails, in three ways. With the single time point \<open>t = [0]\<close> and
  \<open>D0 = 0.6\<close> the model returns \<open>[0.5999999999999339]\<close>, not \<open>[D0]\<close>: the result is
  \<open>1000 * ((D0 / 1000 + 1) - 1)\<close> in doubles. With the two time points \<open>[0, -1]\<close> and
  \<open>Deq = -1000\<close> the step matrix is singular, \<^verbatim>\<open>inv\<close> raises and no update is completed.
  With no time point the initial state cannot be stored.
\<close>

theorem fSE15_counterexample:
  "fSE15 ref_lib sample_isoparams [Fin 0] (Fin 0) (Fin 0) (Fin 0) (Fin (5404319552844595 / 9007199254740992)) (Fin 0) (Fin 1)
     sample_experiment = Inr [Fin (168884986026375 / 281474976710656)] \<and>
   Fin (168884986026375 / 281474976710656) \<noteq> Fin (5404319552844595 / 9007199254740992) \<and>
   fSE15 ref_lib sample_isoparams [Fin 0, Fin (- 1)] (Fin 0) (Fin 0) (Fin 0) (Fin (5404319552844595 / 9007199254740992)) (Fin (- 1000)) (Fin 1)
     sample_experiment = Inl LinAlgError \<and>
   fSE15 ref_lib sample_isoparams [] (Fin 0) (Fin 0) (Fin 0) (Fin (5404319552844595 / 9007199254740992)) (Fin 0) (Fin 1)
     sample_experiment = Inl IndexError"
proof -
  have a: "fSE15 ref_lib sample_isoparams [Fin 0] (Fin 0) (Fin 0) (Fin 0) (Fin (5404319552844595 / 9007199254740992)) (Fin 0) (Fin 1)
     sample_experiment = Inr [Fin (168884986026375 / 281474976710656)]"
    unfolding fSE15_single_point[where d47_isoparams = sample_isoparams and he = sample_experiment,
        OF sample_registered sample_columns]
    by (simp add: SE15_roundtrip_1 SE15_roundtrip_2 SE15_roundtrip_3 SE15_roundtrip_4)
  have b: "fSE15 ref_lib sample_isoparams [Fin 0, Fin (- 1)] (Fin 0) (Fin 0) (Fin 0) (Fin (5404319552844595 / 9007199254740992)) (Fin (- 1000)) (Fin 1)
     sample_experiment = Inl LinAlgError"
  proof -
    have i: "np_inv ref_lib = ref_inv" by (simp add: ref_lib_sel)
    have u: "[0 ..< Suc 0] = [0]" by simp
    show ?thesis
      using sample_singular_inv
      by (simp add: fSE15_def fSE15_run_def sample_singular_system ebind_def Let_def i u)
  qed
  have c: "fSE15 ref_lib sample_isoparams [] (Fin 0) (Fin 0) (Fin 0) (Fin (5404319552844595 / 9007199254740992)) (Fin 0) (Fin 1)
     sample_experiment = Inl IndexError"
    by (rule fSE15_no_time_point[where d47_isoparams = sample_isoparams and he = sample_experiment,
        OF sample_registered sample_columns])
  show ?thesis unfolding a b c by simp
qed

text \<open>
  Claim C5, amended. For every call of the paired-diffusion model for which the rate
  system is defined (the name of the isotope parameters is registered and the data have
  three columns), with at least one time point, and in which no inversion raises: the
  integrator performs exactly \<open>nt - 1\<close> implicit updates. That is, \<^verbatim>\<open>inv\<close> is called
  \<open>nt - 1\<close> times, once with each \<open>I - (t[i+1] - t[i]) A\<close> in turn; the states \<open>x\<close> start at
  \<open>[D0/1000 + 1, Dpp0]\<close>, every further one is the product of the inverse with
  \<open>x[i] + (t[i+1] - t[i]) B\<close>; and the result is \<open>1000 (x[:,0] - 1)\<close>. In particular a call
  with a single time point inverts nothing and returns the one-element array
  \<open>[1000 ((D0/1000 + 1) - 1)]\<close>, which is \<open>D0\<close> up to the rounding of the three operations.
\<close>

theorem fSE15_steps:
  assumes sys: "SE15_system lib d47_isoparams lnk1f lnkds lnp0peq D0 Deq Dppeq he = Inr (A, B, x0)"
    and nt: "t \<noteq> []"
    and inv: "\<forall>i < length t - 1.
                np_inv lib (step_matrix A (fsub (t ! (i + 1)) (t ! i))) = Inr (Ai ! i)"
  shows "\<exists>x. length x = length t \<and> x ! 0 = x0 \<and>
           fst x0 = fadd (fdiv D0 (Fin 1000)) (Fin 1) \<and>
           (\<forall>i < length t - 1.
              x ! (i + 1) =
                np_matvec lib (Ai ! i) (step_rhs (x ! i) (fsub (t ! (i + 1)) (t ! i)) B)) \<and>
           fSE15_run lib d47_isoparams t lnk1f lnkds lnp0peq D0 Deq Dppeq he =
             Inr (map (\<lambda>v. fmul (Fin 1000) (fsub (fst v) (Fin 1))) x,
                  map (\<lambda>i. step_matrix A (fsub (t ! (i + 1)) (t ! i))) [0 ..< length t - 1]) \<and>
           fSE15 lib d47_isoparams t lnk1f lnkds lnp0peq D0 Deq Dppeq he =
             Inr (map (\<lambda>v. fmul (Fin 1000) (fsub (fst v) (Fin 1))) x)"
proof -
  define x1 where "x1 = (replicate (length t) (Fin 0, Fin 0))[0 := x0]"
  have l: "length t - 1 < length x1" using nt by (simp add: x1_def)
  have i: "\<forall>i. 0 \<le> i \<and> i < length t - 1 \<longrightarrow>
             np_inv lib (step_matrix A (fsub (t ! (i + 1)) (t ! i))) = Inr (Ai ! i)"
    using inv by simp
  from backward_Euler_steps[OF i l, of B "[]"]
  obtain x where x:
    "backward_Euler lib A B t [0 ..< length t - 1] (x1, []) =
       Inr (x, map (\<lambda>i. step_matrix A (fsub (t ! (i + 1)) (t ! i))) [0 ..< length t - 1])"
    "length x = length x1" "x ! 0 = x1 ! 0"
    "\<forall>i. 0 \<le> i \<and> i < length t - 1 \<longrightarrow>
       x ! (i + 1) = np_matvec lib (Ai ! i) (step_rhs (x ! i) (fsub (t ! (i + 1)) (t ! i)) B)"
    by auto
  have a: "length x = length t" using x(2) by (simp add: x1_def)
  have b: "x ! 0 = x0" using x(3) nt by (simp add: x1_def)
  have r: "fSE15_run lib d47_isoparams t lnk1f lnkds lnp0peq D0 Deq Dppeq he =
             Inr (map (\<lambda>v. fmul (Fin 1000) (fsub (fst v) (Fin 1))) x,
                  map (\<lambda>i. step_matrix A (fsub (t ! (i + 1)) (t ! i))) [0 ..< length t - 1])"
    using sys nt x(1)
    by (simp add: fSE15_run_def ebind_def Let_def x1_def[symmetric] comp_def)
  have f: "fSE15 lib d47_isoparams t lnk1f lnkds lnp0peq D0 Deq Dppeq he =
             Inr (map (\<lambda>v. fmul (Fin 1000) (fsub (fst v) (Fin 1))) x)"
    by (simp add: fSE15_def r ebind_def)
  show ?thesis
    using a b r f x(4) SE15_system_initial[OF sys] by auto
qed

text \<open>
  The rate system for \<open>lnk1f = lnkds = lnp0peq = 0\<close>, \<open>D0 = 0.6\<close>, \<open>Deq = 0.5\<close> and
  \<open>Dppeq = 1\<close>, its step matrix for the time points \<open>[0, 1]\<close>, the inverse, the update and
  the result.
\<close>

lemma SE15_wit_1: "fdiv (Fin (1 / 2)) (Fin 1000) = Fin (1152921504606847 / 2305843009213693952)"
  by (rule fdiv_cert[where k = "- 63" and m = 4611686018427388 and q = "1 / 9223372036854775808"]) simp_all

lemma SE15_wit_2: "fadd (Fin (1152921504606847 / 2305843009213693952)) (Fin 1) = Fin (4505851427184181 / 4503599627370496)"
  by (rule fadd_cert[where k = "- 52" and m = 4505851427184181 and q = "1 / 4503599627370496"]) simp_all

lemma SE15_wit_3: "fmul (Fin 1) (Fin (4505851427184181 / 4503599627370496)) = Fin (4505851427184181 / 4503599627370496)"
  by (rule fmul_cert[where k = "- 52" and m = 4505851427184181 and q = "1 / 4503599627370496"]) simp_all

lemma SE15_wit_4: "fdiv (Fin (4505851427184181 / 4503599627370496)) (Fin 1) = Fin (4505851427184181 / 4503599627370496)"
  by (rule fdiv_cert[where k = "- 52" and m = 4505851427184181 and q = "1 / 4503599627370496"]) simp_all

lemma SE15_wit_5: "fadd (Fin (4505851427184181 / 4503599627370496)) (Fin (4591340867033001 / 4503599627370496)) = Fin (4548596147108591 / 2251799813685248)"
  by (rule fadd_cert[where k = "- 51" and m = 4548596147108591 and q = "1 / 2251799813685248"]) simp_all

lemma SE15_wit_6: "fsub (Fin 1) (Fin 0) = Fin 1"
  by (rule fsub_cert[where k = "- 52" and m = 4503599627370496 and q = "1 / 4503599627370496"]) simp_all

lemma SE15_wit_7: "fmul (Fin 1) (Fin (- 1)) = Fin (- 1)"
  by (rule fmul_cert[where k = "- 52" and m = "- 4503599627370496" and q = "1 / 4503599627370496"]) simp_all

lemma SE15_wit_8: "fsub (Fin 1) (Fin (- 1)) = Fin 2"
  by (rule fsub_cert[where k = "- 51" and m = 4503599627370496 and q = "1 / 2251799813685248"]) simp_all

lemma SE15_wit_9: "fsub (Fin 0) (Fin (4505851427184181 / 4503599627370496)) = Fin (- (4505851427184181 / 4503599627370496))"
  by (rule fsub_cert[where k = "- 52" and m = "- 4505851427184181" and q = "1 / 4503599627370496"]) simp_all

lemma SE15_wit_10: "fsub (Fin 0) (Fin 1) = Fin (- 1)"
  by (rule fsub_cert[where k = "- 52" and m = "- 4503599627370496" and q = "1 / 4503599627370496"]) simp_all

lemma SE15_wit_11: "fmul (Fin 1) (Fin (- (4548596147108591 / 2251799813685248))) = Fin (- (4548596147108591 / 2251799813685248))"
  by (rule fmul_cert[where k = "- 51" and m = "- 4548596147108591" and q = "1 / 2251799813685248"]) simp_all

lemma SE15_wit_12: "fsub (Fin 1) (Fin (- (4548596147108591 / 2251799813685248))) = Fin (6800395960793839 / 2251799813685248)"
  by (rule fsub_cert[where k = "- 51" and m = 6800395960793839 and q = "1 / 2251799813685248"]) simp_all

lemma SE15_wit_13: "fdiv (Fin (- 1)) (Fin 2) = Fin (- (1 / 2))"
  by (rule fdiv_cert[where k = "- 53" and m = "- 4503599627370496" and q = "1 / 9007199254740992"]) simp_all

lemma SE15_wit_14: "fmul (Fin (- (1 / 2))) (Fin (- (4505851427184181 / 4503599627370496))) = Fin (4505851427184181 / 9007199254740992)"
  by (rule fmul_cert[where k = "- 53" and m = 4505851427184181 and q = "1 / 9007199254740992"]) simp_all

lemma SE15_wit_15: "fsub (Fin (6800395960793839 / 2251799813685248)) (Fin (4505851427184181 / 9007199254740992)) = Fin (2836966551998897 / 1125899906842624)"
  by (rule fsub_cert[where k = "- 51" and m = 5673933103997794 and q = "1 / 2251799813685248"]) simp_all

lemma SE15_wit_16: "fmul (Fin (- (1 / 2))) (Fin 1) = Fin (- (1 / 2))"
  by (rule fmul_cert[where k = "- 53" and m = "- 4503599627370496" and q = "1 / 9007199254740992"]) simp_all

lemma SE15_wit_17: "fsub (Fin 0) (Fin (- (1 / 2))) = Fin (1 / 2)"
  by (rule fsub_cert[where k = "- 53" and m = 4503599627370496 and q = "1 / 9007199254740992"]) simp_all

lemma SE15_wit_18: "fdiv (Fin (1 / 2)) (Fin (2836966551998897 / 1125899906842624)) = Fin (893666229046695 / 4503599627370496)"
  by (rule fdiv_cert[where k = "- 55" and m = 7149329832373560 and q = "1 / 36028797018963968"]) simp_all

lemma SE15_wit_19: "fmul (Fin (- (4505851427184181 / 4503599627370496))) (Fin (893666229046695 / 4503599627370496)) = Fin (- (3576452248644873 / 18014398509481984))"
  by (rule fmul_cert[where k = "- 55" and m = "- 7152904497289746" and q = "1 / 36028797018963968"]) simp_all

lemma SE15_wit_20: "fsub (Fin 1) (Fin (- (3576452248644873 / 18014398509481984))) = Fin (2698856344765857 / 2251799813685248)"
  by (rule fsub_cert[where k = "- 52" and m = 5397712689531714 and q = "1 / 4503599627370496"]) simp_all

lemma SE15_wit_21: "fdiv (Fin (2698856344765857 / 2251799813685248)) (Fin 2) = Fin (2698856344765857 / 4503599627370496)"
  by (rule fdiv_cert[where k = "- 53" and m = 5397712689531714 and q = "1 / 9007199254740992"]) simp_all

lemma SE15_wit_22: "fmul (Fin (- (1 / 2))) (Fin 0) = NZero"
  by (simp add: fadd_def fsub_def fmul_def fdiv_def fzero_def finf_def)

lemma SE15_wit_23: "fsub (Fin 1) NZero = Fin 1"
proof -
  have "fround s 1 = Fin 1" for s
    by (rule fround_cert[where k = "- 52" and m = 4503599627370496 and q = "1 / 4503599627370496"]) simp_all
  then show ?thesis by (simp add: fadd_def fsub_def fmul_def fdiv_def fzero_def finf_def)
qed

lemma SE15_wit_24: "fdiv (Fin 1) (Fin (2836966551998897 / 1125899906842624)) = Fin (893666229046695 / 2251799813685248)"
  by (rule fdiv_cert[where k = "- 54" and m = 7149329832373560 and q = "1 / 18014398509481984"]) simp_all

lemma SE15_wit_25: "fmul (Fin (- (4505851427184181 / 4503599627370496))) (Fin (893666229046695 / 2251799813685248)) = Fin (- (3576452248644873 / 9007199254740992))"
  by (rule fmul_cert[where k = "- 54" and m = "- 7152904497289746" and q = "1 / 18014398509481984"]) simp_all

lemma SE15_wit_26: "fsub (Fin 0) (Fin (- (3576452248644873 / 9007199254740992))) = Fin (3576452248644873 / 9007199254740992)"
  by (rule fsub_cert[where k = "- 54" and m = 7152904497289746 and q = "1 / 18014398509481984"]) simp_all

lemma SE15_wit_27: "fdiv (Fin (3576452248644873 / 9007199254740992)) (Fin 2) = Fin (3576452248644873 / 18014398509481984)"
  by (rule fdiv_cert[where k = "- 55" and m = 7152904497289746 and q = "1 / 36028797018963968"]) simp_all

lemma SE15_wit_28: "fadd (Fin (2253150893573459 / 2251799813685248)) (Fin 0) = Fin (2253150893573459 / 2251799813685248)"
  by (rule fadd_cert[where k = "- 52" and m = 4506301787146918 and q = "1 / 4503599627370496"]) simp_all

lemma SE15_wit_29: "fmul (Fin 1) (Fin (4591340867033001 / 4503599627370496)) = Fin (4591340867033001 / 4503599627370496)"
  by (rule fmul_cert[where k = "- 52" and m = 4591340867033001 and q = "1 / 4503599627370496"]) simp_all

lemma SE15_wit_30: "fadd (Fin 1) (Fin (4591340867033001 / 4503599627370496)) = Fin (1136867561800437 / 562949953421312)"
  by (rule fadd_cert[where k = "- 51" and m = 4547470247201748 and q = "1 / 2251799813685248"]) simp_all

lemma SE15_wit_31: "fmul (Fin (2698856344765857 / 4503599627370496)) (Fin (2253150893573459 / 2251799813685248)) = Fin (5400951317145433 / 9007199254740992)"
  by (rule fmul_cert[where k = "- 53" and m = 5400951317145433 and q = "1 / 9007199254740992"]) simp_all

lemma SE15_wit_32: "fmul (Fin (3576452248644873 / 18014398509481984)) (Fin (1136867561800437 / 562949953421312)) = Fin (7222582616983763 / 18014398509481984)"
  by (rule fmul_cert[where k = "- 54" and m = 7222582616983763 and q = "1 / 18014398509481984"]) simp_all

lemma SE15_wit_33: "fadd (Fin (5400951317145433 / 9007199254740992)) (Fin (7222582616983763 / 18014398509481984)) = Fin (4506121312818657 / 4503599627370496)"
  by (rule fadd_cert[where k = "- 52" and m = 4506121312818657 and q = "1 / 4503599627370496"]) simp_all

lemma SE15_wit_34: "fmul (Fin (893666229046695 / 4503599627370496)) (Fin (2253150893573459 / 2251799813685248)) = Fin (894202428784123 / 4503599627370496)"
  by (rule fmul_cert[where k = "- 55" and m = 7153619430272984 and q = "1 / 36028797018963968"]) simp_all

lemma SE15_wit_35: "fmul (Fin (893666229046695 / 2251799813685248)) (Fin (1136867561800437 / 562949953421312)) = Fin (3609486565209277 / 4503599627370496)"
  by (rule fmul_cert[where k = "- 53" and m = 7218973130418554 and q = "1 / 9007199254740992"]) simp_all

lemma SE15_wit_36: "fadd (Fin (894202428784123 / 4503599627370496)) (Fin (3609486565209277 / 4503599627370496)) = Fin (562961124249175 / 562949953421312)"
  by (rule fadd_cert[where k = "- 52" and m = 4503688993993400 and q = "1 / 4503599627370496"]) simp_all

lemma SE15_wit_37: "fsub (Fin (4506121312818657 / 4503599627370496)) (Fin 1) = Fin (2521685448161 / 4503599627370496)"
  by (rule fsub_cert[where k = "- 63" and m = 5164411797833728 and q = "1 / 9223372036854775808"]) simp_all

lemma SE15_wit_38: "fmul (Fin 1000) (Fin (2521685448161 / 4503599627370496)) = Fin (315210681020125 / 562949953421312)"
  by (rule fmul_cert[where k = "- 53" and m = 5043370896322000 and q = "1 / 9007199254740992"]) simp_all

lemma sample_system:
  "SE15_system ref_lib sample_isoparams (Fin 0) (Fin 0) (Fin 0) (Fin (5404319552844595 / 9007199254740992)) (Fin (1 / 2)) (Fin 1)
     sample_experiment =
     Inr (((Fin (- 1), Fin (4505851427184181 / 4503599627370496)), (Fin 1, Fin (- (4548596147108591 / 2251799813685248)))),
          (Fin 0, Fin (4591340867033001 / 4503599627370496)),
          (Fin (2253150893573459 / 2251799813685248), Fin 1))"
  by (simp add: ebind_def SE15_system_def dex_col_def py_index_def sample_experiment_def ref_lib_sel Let_def sample_means sample_R_stoch
      SE15_sing_1 SE15_sing_2 SE15_sing_3 SE15_sing_4 SE15_sing_5 SE15_sing_6 SE15_sing_7
      SE15_roundtrip_1 SE15_roundtrip_2 SE15_wit_1 SE15_wit_2 SE15_wit_3 SE15_wit_4
      SE15_sing_12 SE15_wit_5)

lemma sample_inv:
  "ref_inv (step_matrix ((Fin (- 1), Fin (4505851427184181 / 4503599627370496)), (Fin 1, Fin (- (4548596147108591 / 2251799813685248))))
      (fsub (Fin 1) (Fin 0))) =
   Inr ((Fin (2698856344765857 / 4503599627370496), Fin (3576452248644873 / 18014398509481984)), (Fin (893666229046695 / 4503599627370496), Fin (893666229046695 / 2251799813685248)))"
  by (simp add: step_matrix_def ref_inv_def lu_solve_def mag_gt_def Let_def
      SE15_wit_6 SE15_wit_7 SE15_wit_8 SE15_wit_3 SE15_wit_9 SE15_sing_7 SE15_wit_10
      SE15_wit_11 SE15_wit_12 SE15_wit_13 SE15_wit_14 SE15_wit_15 SE15_wit_16 SE15_wit_17
      SE15_wit_18 SE15_wit_19 SE15_wit_20 SE15_wit_21 SE15_wit_22 SE15_wit_23 SE15_wit_24
      SE15_wit_25 SE15_wit_26 SE15_wit_27)

lemma sample_update:
  "ref_matvec ((Fin (2698856344765857 / 4503599627370496), Fin (3576452248644873 / 18014398509481984)), (Fin (893666229046695 / 4503599627370496), Fin (893666229046695 / 2251799813685248)))
     (step_rhs (Fin (2253150893573459 / 2251799813685248), Fin 1) (fsub (Fin 1) (Fin 0))
        (Fin 0, Fin (4591340867033001 / 4503599627370496))) =
   (Fin (4506121312818657 / 4503599627370496), Fin (562961124249175 / 562949953421312))"
  by (simp add: step_rhs_def ref_matvec_def
      SE15_wit_6 SE15_wit_7 SE15_wit_8 SE15_wit_3 SE15_wit_9 SE15_sing_7 SE15_wit_10
      SE15_wit_11 SE15_wit_12 SE15_sing_10 SE15_wit_28 SE15_wit_29 SE15_wit_30 SE15_wit_31
      SE15_wit_32 SE15_wit_33 SE15_wit_34 SE15_wit_35 SE15_wit_36)

text \<open>
  The amended C5 for the sample data and the time points \<open>[0, 1]\<close>: one inversion, one
  update, and the result \<open>[0.5999999999999339, 0.5599266490821098]\<close>.
\<close>

theorem fSE15_steps_witness:
  "fSE15_run ref_lib sample_isoparams [Fin 0, Fin 1] (Fin 0) (Fin 0) (Fin 0) (Fin (5404319552844595 / 9007199254740992)) (Fin (1 / 2)) (Fin 1)
     sample_experiment =
   Inr ([Fin (168884986026375 / 281474976710656),
         Fin (315210681020125 / 562949953421312)],
        [((Fin 2, Fin (- (4505851427184181 / 4503599627370496))), (Fin (- 1), Fin (6800395960793839 / 2251799813685248)))])"
proof -
  define A :: mat2 where "A = ((Fin (- 1), Fin (4505851427184181 / 4503599627370496)), (Fin 1, Fin (- (4548596147108591 / 2251799813685248))))"
  define B :: vec2 where "B = (Fin 0, Fin (4591340867033001 / 4503599627370496))"
  define x0 :: vec2 where "x0 = (Fin (2253150893573459 / 2251799813685248), Fin 1)"
  define Ai :: mat2 where "Ai = ((Fin (2698856344765857 / 4503599627370496), Fin (3576452248644873 / 18014398509481984)), (Fin (893666229046695 / 4503599627370496), Fin (893666229046695 / 2251799813685248)))"
  define t where "t = [Fin 0, Fin 1]"
  have sys: "SE15_system ref_lib sample_isoparams (Fin 0) (Fin 0) (Fin 0) (Fin (5404319552844595 / 9007199254740992)) (Fin (1 / 2)) (Fin 1)
      sample_experiment = Inr (A, B, x0)"
    unfolding A_def B_def x0_def by (rule sample_system)
  have nt: "t \<noteq> []" by (simp add: t_def)
  have inv: "\<forall>i < length t - 1.
      np_inv ref_lib (step_matrix A (fsub (t ! (i + 1)) (t ! i))) = Inr ([Ai] ! i)"
    using sample_inv by (simp add: t_def A_def Ai_def ref_lib_sel)
  from fSE15_steps[where d47_isoparams = sample_isoparams and he = sample_experiment
      and Ai = "[Ai]", OF sys nt inv]
  obtain x where x: "length x = length t" "x ! 0 = x0"
    "\<forall>i < length t - 1.
       x ! (i + 1) = np_matvec ref_lib ([Ai] ! i) (step_rhs (x ! i) (fsub (t ! (i + 1)) (t ! i)) B)"
    "fSE15_run ref_lib sample_isoparams t (Fin 0) (Fin 0) (Fin 0) (Fin (5404319552844595 / 9007199254740992)) (Fin (1 / 2)) (Fin 1)
       sample_experiment =
     Inr (map (\<lambda>v. fmul (Fin 1000) (fsub (fst v) (Fin 1))) x,
          map (\<lambda>i. step_matrix A (fsub (t ! (i + 1)) (t ! i))) [0 ..< length t - 1])"
    by blast
  from x(1) obtain u w where uw: "x = [u, w]"
    by (auto simp: t_def length_Suc_conv numeral_2_eq_2)
  have u: "u = x0" using x(2) by (simp add: uw)
  have "w = np_matvec ref_lib Ai (step_rhs u (fsub (Fin 1) (Fin 0)) B)"
    using x(3) by (simp add: uw t_def)
  then have w: "w = (Fin (4506121312818657 / 4503599627370496), Fin (562961124249175 / 562949953421312))"
    using sample_update by (simp add: u x0_def B_def Ai_def ref_lib_sel)
  have m: "step_matrix A (fsub (Fin 1) (Fin 0)) = ((Fin 2, Fin (- (4505851427184181 / 4503599627370496))), (Fin (- 1), Fin (6800395960793839 / 2251799813685248)))"
    by (simp add: A_def step_matrix_def SE15_wit_6 SE15_wit_7 SE15_wit_8 SE15_wit_3 SE15_wit_9 SE15_sing_7 SE15_wit_10
        SE15_wit_11 SE15_wit_12)
  have un: "[0 ..< Suc 0] = [0]" by simp
  show ?thesis
    using x(4) unfolding uw u w
    by (simp add: t_def x0_def un m
        SE15_roundtrip_3 SE15_roundtrip_4 SE15_wit_37 SE15_wit_38)
qed

end
